theory Spec2Isabelle
  imports Complex_Main "HOL-Library.Log_Nat"
begin

section \<open>The valuation engine of iacoes (scripts/valuation.ts)\<close>

text \<open>
  The TypeScript module computes with JavaScript numbers. They are embedded as
  \<^typ>\<open>real\<close>. In the normalizer, the WACC, the five valuation methods, the upsides and
  the sensitivity matrix the arithmetic is exact, so rounding, overflow and the sign of zero
  are not part of the model there. The weighting of \<open>performValuation\<close> (the weight sum, the
  weighted fair value and the normalized weights) is modelled in double precision: each
  sum, product and quotient is rounded to the nearest double by \<open>binary64\<close> below, because
  a property of the weighting depends on the rounding.
  A division whose divisor is zero gives \<open>Infinity\<close> or \<open>NaN\<close> in
  JavaScript and \<open>0\<close> in HOL; the concrete inputs used below never divide by zero.
  The one place where the code produces an infinity without any division, the minimum
  and maximum of an empty argument list, is modelled with the type \<open>jsnum\<close>.

  A nullable field (\<open>number | null | undefined\<close>) is a \<^typ>\<open>real option\<close>.
\<close>

datatype jsnum = Num real | PosInfinity | NegInfinity

subsection \<open>Double precision\<close>

text \<open>
  A JavaScript number is an IEEE 754 binary64 value, and every arithmetic operation returns
  the double nearest to the exact result, a tie going to the even significand. For
  \<open>x \<noteq> 0\<close>, \<open>exponent x\<close> is the integer \<open>e\<close> with \<open>2 ^ e \<le> \<bar>x\<bar> < 2 ^ (e + 1)\<close>. A normal double
  is a multiple of \<open>2 ^ (e - 52)\<close>; below \<open>2 ^ - 1022\<close> the doubles are the multiples of
  \<open>2 ^ - 1074\<close> (gradual underflow). Overflow to \<open>Infinity\<close> is not modelled: \<open>binary64\<close>
  rounds a result beyond the largest double as if the exponent range were unbounded above.
\<close>

definition pow2 :: "int \<Rightarrow> real" where
  "pow2 e = (if 0 \<le> e then 2 ^ nat e else 1 / 2 ^ nat (- e))"

definition exponent :: "real \<Rightarrow> int" where
  "exponent x =
     (if 1 \<le> \<bar>x\<bar> then bitlen \<lfloor>\<bar>x\<bar>\<rfloor> - 1 else - bitlen (\<lceil>1 / \<bar>x\<bar>\<rceil> - 1))"

definition round_half_even :: "real \<Rightarrow> int" where
  "round_half_even x =
     (let f = \<lfloor>x\<rfloor>; d = x - real_of_int f
      in if d < 1 / 2 then f
         else if 1 / 2 < d then f + 1
         else if even f then f else f + 1)"

definition binary64 :: "real \<Rightarrow> real" where
  "binary64 x =
     (if x = 0 then 0
      else (let e = max (exponent x) (- 1022);
                ulp = pow2 (e - 52)
            in real_of_int (round_half_even (x / ulp)) * ulp))"

subsection \<open>Types (scripts/types.ts, read off their uses in valuation.ts)\<close>

text \<open>
  Each record has the fields valuation.ts reads or writes, under the names of the source.
  Where two records share a field name (\<open>price\<close>, \<open>sharesOutstanding\<close>, \<open>roe\<close>, ...) the
  selectors are written with the record's name, as in \<open>FinancialData.price\<close>. The fields
  \<open>_rawIncome\<close>, \<open>_rawBalance\<close>, \<open>_rawCashFlow\<close> and \<open>_rawDividends\<close> lose their underscore.
  Rows of the three statement tables share \<open>symbol\<close>, \<open>end_date\<close>, \<open>period\<close> and \<open>type\<close>.
\<close>

record has_symbol =
  symbol :: string

record statement_row = has_symbol +
  end_date :: string
  period :: "string option"
  type :: "string option"

record income_row = statement_row +
  total_revenue :: "real option"
  gross_profit :: "real option"
  ebit :: "real option"
  net_income :: "real option"
  interest_expense :: "real option"

record balance_row = statement_row +
  total_assets :: "real option"
  total_current_assets :: "real option"
  total_current_liabilities :: "real option"
  cash :: "real option"
  short_term_investments :: "real option"
  long_term_debt :: "real option"
  short_long_term_debt :: "real option"
  total_stockholder_equity :: "real option"

record cashflow_row = statement_row +
  total_cash_from_operating_activities :: "real option"
  capital_expenditures :: "real option"
  depreciation :: "real option"

record dividend_row = has_symbol +
  exDate :: string
  amount :: "real option"

record brapi_row = has_symbol +
  longName :: "string option"
  shortName :: "string option"
  sector :: "string option"
  industry :: "string option"
  longBusinessSummary :: "string option"
  regularMarketPrice :: "real option"
  regularMarketChangePercent :: "real option"
  fiftyTwoWeekChange :: "real option"
  fiftyTwoWeekLow :: "real option"
  fiftyTwoWeekHigh :: "real option"
  averageDailyVolume3Month :: "real option"
  marketCap :: "real option"
  enterpriseValue :: "real option"
  sharesOutstanding :: "real option"
  earningsPerShare :: "real option"
  bookValue :: "real option"
  beta5y :: "real option"
  revenueGrowth :: "real option"
  pl :: "real option"
  priceEarnings :: "real option"
  pvp :: "real option"
  priceToBook :: "real option"
  lpa :: "real option"
  vpa :: "real option"
  roe :: "real option"
  roic :: "real option"
  net_margin :: "real option"
  ebitda_margin :: "real option"
  enterpriseToEbitda :: "real option"
  ev_ebit :: "real option"
  debt_ebitda :: "real option"
  dividendYield :: "real option"

record SupabaseFinancials =
  income :: "income_row list"
  balance :: "balance_row list"
  cashFlow :: "cashflow_row list"
  brapi :: "brapi_row list"
  dividends :: "dividend_row list"

record FundamentalData = has_symbol +
  name :: string
  sector :: string
  subSector :: string
  type :: string
  price :: real
  date :: string
  min52Week :: real
  max52Week :: real
  volMed2m :: real
  marketCap :: real
  firmValue :: real
  lastBalanceDate :: string
  sharesOutstanding :: real
  changeDay :: real
  change12m :: real
  pl :: real
  pvp :: real
  pebit :: real
  psr :: real
  divYield :: real
  evEbitda :: real
  evEbit :: real
  lpa :: real
  vpa :: real
  grossMargin :: real
  ebitMargin :: real
  ebitdaMargin :: real
  netMargin :: real
  roic :: real
  roe :: real
  currentLiquidity :: real
  debtEquity :: real
  debtEbitda :: real

record FinancialData =
  ticker :: string
  price :: real
  currency :: string
  sharesOutstanding :: real
  beta :: real
  wacc :: real
  growthRate :: real
  roe :: real
  payoutRatio :: real
  revenue :: real
  ebit :: real
  netIncome :: real
  interestExpenses :: real
  taxRate :: real
  equity :: real
  debt :: real
  cashAndEquivalents :: real
  investedCapital :: real
  freeCashFlow :: real
  depreciation :: real
  volatility :: real
  sectorPE :: real
  sectorEVEBITDA :: real
  currentPE :: real
  currentEVEBITDA :: real
  currentEPS :: real
  rawIncome :: "income_row list"
  rawBalance :: "balance_row list"
  rawCashFlow :: "cashflow_row list"
  rawDividends :: "dividend_row list"
  fundamentals :: FundamentalData
  businessSummary :: "string option"

record ValuationAssumptions =
  riskFreeRate :: real
  equityRiskPremium :: real
  beta :: real
  perpetualGrowth :: real
  projectedRevenueGrowth :: real
  costOfDebt :: real
  taxRate :: real

datatype ValuationMethodType = DCF | GORDON | EVA | MULTIPLES | GRAHAM

record ValuationWeights =
  DCF :: real
  GORDON :: real
  EVA :: real
  MULTIPLES :: real
  GRAHAM :: real

record CalculationTrace =
  formula :: string
  inputs :: "(string \<times> real) list"
  steps :: "string list"
  finalResult :: real

record ValuationResult =
  "method" :: ValuationMethodType
  fairValue :: real
  weight :: real
  upside :: real
  details :: string
  trace :: CalculationTrace

record SensitivityCell =
  wacc :: real
  growth :: real
  fairValue :: real

text \<open>The fields \<open>min\<close> and \<open>max\<close> of \<open>priceRange\<close> are named \<open>min_price\<close> and
  \<open>max_price\<close>, since \<open>min\<close> and \<open>max\<close> are constants of HOL.\<close>

record PriceRange =
  min_price :: jsnum
  max_price :: jsnum

record ComprehensiveValuation =
  ticker :: string
  currentPrice :: real
  weightedFairValue :: real
  calculatedWacc :: real
  totalUpside :: real
  results :: "ValuationResult list"
  priceRange :: PriceRange
  sensitivityMatrix :: "SensitivityCell list list"

subsection \<open>Constants (scripts/constants.ts)\<close>

definition DEFAULT_COST_OF_DEBT :: real where
  "DEFAULT_COST_OF_DEBT = 0.16"

text \<open>The weights of \<open>DEFAULT_WEIGHTS\<close> enter the double-precision weighting only, so each
  is the double its literal denotes.\<close>

definition DEFAULT_WEIGHTS_GROWTH :: ValuationWeights where
  "DEFAULT_WEIGHTS_GROWTH =
     \<lparr>ValuationWeights.DCF = binary64 0.50, GORDON = binary64 0.0, EVA = binary64 0.20,
      MULTIPLES = binary64 0.20, GRAHAM = binary64 0.10\<rparr>"

definition DEFAULT_WEIGHTS_MATURE :: ValuationWeights where
  "DEFAULT_WEIGHTS_MATURE =
     \<lparr>ValuationWeights.DCF = binary64 0.40, GORDON = binary64 0.10, EVA = binary64 0.15,
      MULTIPLES = binary64 0.15, GRAHAM = binary64 0.20\<rparr>"

definition DEFAULT_WEIGHTS_DISTRESS :: ValuationWeights where
  "DEFAULT_WEIGHTS_DISTRESS =
     \<lparr>ValuationWeights.DCF = binary64 0.40, GORDON = binary64 0.0, EVA = binary64 0.15,
      MULTIPLES = binary64 0.25, GRAHAM = binary64 0.20\<rparr>"

text \<open>\<open>SCENARIO_PRESETS.BASE\<close>; only its \<open>beta\<close> and \<open>projectedRevenueGrowth\<close> are read
  by valuation.ts.\<close>

definition SCENARIO_PRESETS_BASE_beta :: real where
  "SCENARIO_PRESETS_BASE_beta = 1.0"

definition SCENARIO_PRESETS_BASE_projectedRevenueGrowth :: real where
  "SCENARIO_PRESETS_BASE_projectedRevenueGrowth = 0.05"

text \<open>The assumptions generate-pages.ts passes: \<open>SCENARIO_PRESETS.BASE\<close> with
  \<open>costOfDebt: DEFAULT_COST_OF_DEBT\<close> and \<open>taxRate: 0.34\<close>.\<close>

definition BASE_assumptions :: ValuationAssumptions where
  "BASE_assumptions =
     \<lparr>riskFreeRate = 0.15, equityRiskPremium = 0.05,
      ValuationAssumptions.beta = SCENARIO_PRESETS_BASE_beta,
      perpetualGrowth = 0.05,
      projectedRevenueGrowth = SCENARIO_PRESETS_BASE_projectedRevenueGrowth,
      costOfDebt = DEFAULT_COST_OF_DEBT, ValuationAssumptions.taxRate = 0.34\<rparr>"

subsection \<open>The JavaScript environment\<close>

text \<open>
  Strings are ASCII character lists; \<open>toUpperCase\<close> and \<open>toLowerCase\<close> map the 26 letters
  and \<open>trim\<close> removes ASCII white space, which is what they do on ticker symbols.
\<close>

definition toUpperCase :: "string \<Rightarrow> string" where
  "toUpperCase s =
     map (\<lambda>c. case map_of (zip ''abcdefghijklmnopqrstuvwxyz'' ''ABCDEFGHIJKLMNOPQRSTUVWXYZ'') c of
                 Some u \<Rightarrow> u | None \<Rightarrow> c) s"

definition toLowerCase :: "string \<Rightarrow> string" where
  "toLowerCase s =
     map (\<lambda>c. case map_of (zip ''ABCDEFGHIJKLMNOPQRSTUVWXYZ'' ''abcdefghijklmnopqrstuvwxyz'') c of
                 Some u \<Rightarrow> u | None \<Rightarrow> c) s"

definition isWhiteSpace :: "char \<Rightarrow> bool" where
  "isWhiteSpace c \<longleftrightarrow> c \<in> set [CHR '' '', CHR 0x09, CHR 0x0A, CHR 0x0B, CHR 0x0C, CHR 0x0D]"

definition trim :: "string \<Rightarrow> string" where
  "trim s = rev (dropWhile isWhiteSpace (rev (dropWhile isWhiteSpace s)))"

definition startsWith :: "string \<Rightarrow> string \<Rightarrow> bool" where
  "startsWith s p \<longleftrightarrow> take (length p) s = p"

definition endsWith :: "string \<Rightarrow> string \<Rightarrow> bool" where
  "endsWith s p \<longleftrightarrow> length p \<le> length s \<and> drop (length s - length p) s = p"

text \<open>\<open>s.replace(/\.SA$/, '')\<close>: a final \<open>.SA\<close> is removed.\<close>

definition replace_SA_suffix :: "string \<Rightarrow> string" where
  "replace_SA_suffix s = (if endsWith s ''.SA'' then take (length s - 3) s else s)"

text \<open>\<open>s.replace(/[0-9F]+$/, '')\<close>: the longest final run of digits and \<open>F\<close> is
  removed.\<close>

definition replace_digits_F_suffix :: "string \<Rightarrow> string" where
  "replace_digits_F_suffix s = rev (dropWhile (\<lambda>c. c \<in> set ''0123456789F'') (rev s))"

text \<open>
  What the module reads from its platform: the current date as
  \<open>new Date().toLocaleDateString('pt-BR')\<close> prints it, and for a date string \<open>s\<close> the
  time \<open>new Date(s).getTime()\<close> (milliseconds; end dates are taken to be dates the platform
  parses) and the text \<open>new Date(s).toLocaleDateString('pt-BR')\<close>.
\<close>

record js_env =
  today :: string
  getTime :: "string \<Rightarrow> int"
  toLocaleDateString :: "string \<Rightarrow> string"

text \<open>\<open>x || d\<close> on a nullable number, the test \<open>x ? .. : ..\<close>, and \<open>x || d\<close> on a nullable
  string: \<open>null\<close>, \<open>undefined\<close>, \<open>0\<close> and the empty string are falsy.\<close>

definition num_or :: "real option \<Rightarrow> real \<Rightarrow> real" where
  "num_or x d = (case x of None \<Rightarrow> d | Some v \<Rightarrow> if v = 0 then d else v)"

definition truthy :: "real option \<Rightarrow> bool" where
  "truthy x \<longleftrightarrow> (case x of None \<Rightarrow> False | Some v \<Rightarrow> v \<noteq> 0)"

definition str_or :: "string option \<Rightarrow> string \<Rightarrow> string" where
  "str_or x d = (case x of None \<Rightarrow> d | Some v \<Rightarrow> if v = [] then d else v)"

subsection \<open>Helpers\<close>

definition filterByTicker :: "'a has_symbol_scheme list \<Rightarrow> string \<Rightarrow> 'a has_symbol_scheme list" where
  "filterByTicker data tk =
     (let exact = filter (\<lambda>d. toUpperCase (symbol d) = toUpperCase tk) data
      in if length exact > 0 then exact
         else (let root = replace_digits_F_suffix (toUpperCase tk)
               in filter (\<lambda>d. startsWith (toUpperCase (symbol d)) root) data))"

text \<open>\<open>data.sort((a, b) => new Date(b.end_date).getTime() - new Date(a.end_date).getTime())\<close>:
  a stable sort, latest first.\<close>

definition sort_end_date_desc ::
  "js_env \<Rightarrow> 'a statement_row_scheme list \<Rightarrow> 'a statement_row_scheme list" where
  "sort_end_date_desc env data = sort_key (\<lambda>d. - getTime env (end_date d)) data"

text \<open>\<open>getLatest\<close> sorts its argument in place: it returns the latest row together with
  the array as it leaves it.\<close>

definition getLatest ::
  "js_env \<Rightarrow> 'a statement_row_scheme list
     \<Rightarrow> 'a statement_row_scheme option \<times> 'a statement_row_scheme list" where
  "getLatest env data =
     (if data = [] then (None, data)
      else (let sorted = sort_end_date_desc env data
            in (case sorted of [] \<Rightarrow> None | x # _ \<Rightarrow> Some x, sorted)))"

definition classifyPeriod :: "string option \<Rightarrow> string" where
  "classifyPeriod p =
     (case p of
        None \<Rightarrow> ''quarterly''
      | Some s \<Rightarrow>
          if s = [] then ''quarterly''
          else if startsWith (toUpperCase s) ''FY'' \<or> length s = 4 then ''yearly''
          else ''quarterly'')"

definition normalizeType :: "string option \<Rightarrow> string option \<Rightarrow> string" where
  "normalizeType rawType p =
     (let n = toLowerCase (case rawType of None \<Rightarrow> [] | Some r \<Rightarrow> r)
      in if n \<in> set [''yearly'', ''annual'', ''anual'', ''fy''] then ''yearly''
         else if n \<in> set [''quarterly'', ''quarter''] \<or> startsWith n ''q'' then ''quarterly''
         else classifyPeriod (Some (str_or p (str_or rawType []))))"

definition normPercent :: "real option \<Rightarrow> real option" where
  "normPercent v = (case v of None \<Rightarrow> None | Some n \<Rightarrow> Some (if \<bar>n\<bar> > 2 then n / 100 else n))"

definition pickPos :: "real option \<Rightarrow> real option" where
  "pickPos v = (case v of None \<Rightarrow> None | Some n \<Rightarrow> if n > 0 then Some n else None)"

definition getTypeFromTicker :: "string \<Rightarrow> string" where
  "getTypeFromTicker t =
     (if endsWith t ''11'' then ''UNT''
      else if endsWith t ''4'' then ''PN''
      else if endsWith t ''3'' then ''ON''
      else ''ON'')"

subsection \<open>Main: get financial data\<close>

text \<open>The four categories a failure message can name: \<open>cotacao\<close> (quote), \<open>DRE\<close> (income
  statement), \<open>balanco\<close> (balance sheet) and \<open>fluxo de caixa\<close> (cash flow). The error
  \<open>SemDados t\<close> is \<open>Sem dados para t\<close>, and \<open>DadosIncompletos t missing\<close> is
  \<open>Dados incompletos para t (faltando: ...)\<close> with the labels of \<open>missing\<close> joined.\<close>

datatype category = Cotacao | DRE | Balanco | FluxoDeCaixa

datatype error = SemDados string | DadosIncompletos string "category list"

text \<open>Line 69: the quote row, exact symbol first, then the first row whose symbol starts
  with the ticker stripped of its final digits and \<open>F\<close>.\<close>

definition findBrapi :: "brapi_row list \<Rightarrow> string \<Rightarrow> brapi_row option" where
  "findBrapi rawBrapi t =
     (case find (\<lambda>b. symbol b = t) rawBrapi of
        Some b \<Rightarrow> Some b
      | None \<Rightarrow> find (\<lambda>b. startsWith (symbol b) (replace_digits_F_suffix t)) rawBrapi)"

text \<open>Lines 85 to 92 for one statement category: the yearly rows, latest first. The base
  income row is the first of them, or else \<open>getLatest\<close> of all rows; the base balance
  and cash-flow rows are the yearly row of the base date, or else \<open>getLatest\<close>. Both
  return the ticker's rows as well, sorted when \<open>getLatest\<close> ran.\<close>

definition yearlyRows ::
  "js_env \<Rightarrow> 'a statement_row_scheme list \<Rightarrow> 'a statement_row_scheme list" where
  "yearlyRows env rows =
     sort_end_date_desc env (filter (\<lambda>d. classifyPeriod (period d) = ''yearly'') rows)"

definition baseIncomeRow ::
  "js_env \<Rightarrow> income_row list \<Rightarrow> income_row option \<times> income_row list" where
  "baseIncomeRow env tickerIncome =
     (case yearlyRows env tickerIncome of
        x # _ \<Rightarrow> (Some x, tickerIncome)
      | [] \<Rightarrow> getLatest env tickerIncome)"

definition baseRowAt ::
  "js_env \<Rightarrow> string option \<Rightarrow> 'a statement_row_scheme list
     \<Rightarrow> 'a statement_row_scheme option \<times> 'a statement_row_scheme list" where
  "baseRowAt env baseDate rows =
     (case find (\<lambda>b. Some (end_date b) = baseDate) (yearlyRows env rows) of
        Some x \<Rightarrow> (Some x, rows)
      | None \<Rightarrow> getLatest env rows)"

text \<open>Lines 94 to 98: price, market capitalisation and shares.\<close>

definition resolveShares :: "brapi_row \<Rightarrow> income_row option \<Rightarrow> real \<times> real \<times> real" where
  "resolveShares tickerBrapi baseIncome =
     (let price' = num_or (regularMarketPrice tickerBrapi) 10;
          mCap = num_or (brapi_row.marketCap tickerBrapi) 0;
          shares0 = (if mCap > 0 \<and> price' > 0 then mCap / price'
                     else num_or (brapi_row.sharesOutstanding tickerBrapi) 0);
          shares1 = (if shares0 = 0 \<and> truthy (Option.bind baseIncome net_income)
                          \<and> truthy (earningsPerShare tickerBrapi)
                     then num_or (Option.bind baseIncome net_income) 0
                            / num_or (earningsPerShare tickerBrapi) 0
                     else shares0);
          shares2 = (if shares1 = 0 then 1000000 else shares1)
      in (price', mCap, shares2))"

text \<open>Lines 80 to 175: the snapshot, once the quote row and the rows of the three statement
  categories are known.\<close>

definition buildSnapshot ::
  "js_env \<Rightarrow> string \<Rightarrow> brapi_row \<Rightarrow> income_row list \<Rightarrow> balance_row list
     \<Rightarrow> cashflow_row list \<Rightarrow> dividend_row list \<Rightarrow> FinancialData" where
  "buildSnapshot env t tickerBrapi tickerIncome0 tickerBalance0 tickerCashFlow0 rawDividends' =
     (let betaFromBrapi = pickPos (beta5y tickerBrapi);
          revGrowth = normPercent (revenueGrowth tickerBrapi);
          defaultBeta = (case betaFromBrapi of Some x \<Rightarrow> x | None \<Rightarrow> SCENARIO_PRESETS_BASE_beta);
          defaultRevGrowth = (case revGrowth of Some x \<Rightarrow> x
                              | None \<Rightarrow> SCENARIO_PRESETS_BASE_projectedRevenueGrowth);
          (baseIncome, tickerIncome) = baseIncomeRow env tickerIncome0;
          baseDate = map_option end_date baseIncome;
          (baseBalance, tickerBalance) = baseRowAt env baseDate tickerBalance0;
          (baseCF, tickerCashFlow) = baseRowAt env baseDate tickerCashFlow0;
          (price', mCap, shares) = resolveShares tickerBrapi baseIncome;
          grossDebt = num_or (Option.bind baseBalance long_term_debt) 0
                        + num_or (Option.bind baseBalance short_long_term_debt) 0;
          cash' = num_or (Option.bind baseBalance cash) 0
                    + num_or (Option.bind baseBalance short_term_investments) 0;
          netDebt = grossDebt - cash';
          depreciation' = num_or (Option.bind baseCF cashflow_row.depreciation) 0;
          ebit' = num_or (Option.bind baseIncome income_row.ebit) 0;
          ebitda = ebit' + depreciation';
          equity' = num_or (Option.bind baseBalance total_stockholder_equity)
                      (if truthy (bookValue tickerBrapi)
                       then num_or (bookValue tickerBrapi) 0 * shares else 0);
          investedCapital' = equity' + netDebt;
          totalAssets = num_or (Option.bind baseBalance total_assets) 1;
          ocf = num_or (Option.bind baseCF total_cash_from_operating_activities) 0;
          capex = num_or (Option.bind baseCF capital_expenditures) 0;
          freeCashFlow' = ocf + capex;
          netIncome' = num_or (Option.bind baseIncome net_income) 0;
          revenue' = num_or (Option.bind baseIncome total_revenue) 0;
          pl' = num_or (brapi_row.pl tickerBrapi) (num_or (priceEarnings tickerBrapi)
                  (if netIncome' > 0 then mCap / netIncome' else 0));
          pvp' = num_or (brapi_row.pvp tickerBrapi) (num_or (priceToBook tickerBrapi)
                   (if equity' > 0 then mCap / equity' else 0));
          lpa' = num_or (brapi_row.lpa tickerBrapi) (num_or (earningsPerShare tickerBrapi)
                   (netIncome' / shares));
          vpa' = num_or (brapi_row.vpa tickerBrapi) (num_or (bookValue tickerBrapi)
                   (equity' / shares));
          roe' = (if truthy (brapi_row.roe tickerBrapi)
                  then num_or (brapi_row.roe tickerBrapi) 0 / 100
                  else (if equity' > 0 then netIncome' / equity' else 0));
          roic' = (if truthy (brapi_row.roic tickerBrapi)
                   then num_or (brapi_row.roic tickerBrapi) 0 / 100
                   else (if (equity' + netDebt) > 0 then (ebit' * 0.66) / (equity' + netDebt)
                         else 0));
          netMargin' = (if truthy (net_margin tickerBrapi)
                        then num_or (net_margin tickerBrapi) 0 / 100
                        else (if revenue' > 0 then netIncome' / revenue' else 0));
          ebitdaMargin' = (if truthy (ebitda_margin tickerBrapi)
                           then num_or (ebitda_margin tickerBrapi) 0 / 100
                           else (if revenue' > 0 then ebitda / revenue' else 0));
          evEbitda' = num_or (enterpriseToEbitda tickerBrapi)
                        (if ebitda > 0 then (mCap + netDebt) / ebitda else 0);
          evEbit' = num_or (ev_ebit tickerBrapi)
                      (if ebit' > 0 then (mCap + netDebt) / ebit' else 0);
          debtEbitda' = num_or (debt_ebitda tickerBrapi)
                          (if ebitda > 0 then netDebt / ebitda else 0);
          changeDay' = (if truthy (regularMarketChangePercent tickerBrapi)
                        then num_or (regularMarketChangePercent tickerBrapi) 0 / 100 else 0);
          change12m' = (if truthy (fiftyTwoWeekChange tickerBrapi)
                        then num_or (fiftyTwoWeekChange tickerBrapi) 0 / 100 else 0);
          currentAssets = num_or (Option.bind baseBalance total_current_assets) 0;
          currentLiab = num_or (Option.bind baseBalance total_current_liabilities) 0;
          fundamentals' =
            \<lparr>symbol = t,
             name = str_or (longName tickerBrapi) (str_or (shortName tickerBrapi) t),
             FundamentalData.sector = str_or (brapi_row.sector tickerBrapi) ''-'',
             subSector = str_or (industry tickerBrapi) ''-'',
             FundamentalData.type = getTypeFromTicker t,
             FundamentalData.price = price',
             date = today env,
             min52Week = num_or (fiftyTwoWeekLow tickerBrapi) 0,
             max52Week = num_or (fiftyTwoWeekHigh tickerBrapi) 0,
             volMed2m = num_or (averageDailyVolume3Month tickerBrapi) 0,
             FundamentalData.marketCap = mCap,
             firmValue = num_or (enterpriseValue tickerBrapi) (mCap + netDebt),
             lastBalanceDate = (case baseDate of
                                  None \<Rightarrow> ''-''
                                | Some d \<Rightarrow> if d = [] then ''-'' else toLocaleDateString env d),
             FundamentalData.sharesOutstanding = shares,
             changeDay = changeDay', change12m = change12m',
             FundamentalData.pl = pl', FundamentalData.pvp = pvp',
             pebit = (if ebit' > 0 then mCap / ebit' else 0),
             psr = (if revenue' > 0 then mCap / revenue' else 0),
             divYield = num_or (dividendYield tickerBrapi) 0,
             evEbitda = evEbitda', evEbit = evEbit',
             FundamentalData.lpa = lpa', FundamentalData.vpa = vpa',
             grossMargin = (if revenue' > 0
                            then num_or (Option.bind baseIncome gross_profit) 0 / revenue' else 0),
             ebitMargin = (if revenue' > 0 then ebit' / revenue' else 0),
             ebitdaMargin = ebitdaMargin', netMargin = netMargin',
             FundamentalData.roic = roic', FundamentalData.roe = roe',
             currentLiquidity = (if currentLiab > 0 then currentAssets / currentLiab else 0),
             debtEquity = (if equity' > 0 then grossDebt / equity' else 0),
             debtEbitda = debtEbitda'\<rparr>
      in \<lparr>FinancialData.ticker = t, FinancialData.price = price', currency = ''BRL'',
          FinancialData.sharesOutstanding = shares,
          FinancialData.beta = defaultBeta, FinancialData.wacc = 0.12,
          growthRate = defaultRevGrowth,
          FinancialData.roe = roe', payoutRatio = 0.25,
          revenue = revenue', FinancialData.ebit = ebit', netIncome = netIncome',
          interestExpenses = \<bar>num_or (Option.bind baseIncome interest_expense) 0\<bar>,
          FinancialData.taxRate = 0.34, equity = equity', debt = grossDebt,
          cashAndEquivalents = cash',
          investedCapital = investedCapital', freeCashFlow = freeCashFlow',
          FinancialData.depreciation = depreciation',
          volatility = 0.30, sectorPE = 8.0, sectorEVEBITDA = 6.0,
          currentPE = pl', currentEVEBITDA = evEbitda', currentEPS = lpa',
          rawIncome = map (\<lambda>i. i\<lparr>statement_row.type :=
                              Some (normalizeType (statement_row.type i) (period i))\<rparr>) tickerIncome,
          rawBalance = map (\<lambda>b. b\<lparr>statement_row.type :=
                              Some (normalizeType (statement_row.type b) (period b))\<rparr>) tickerBalance,
          rawCashFlow = map (\<lambda>c. c\<lparr>statement_row.type :=
                              Some (normalizeType (statement_row.type c) (period c))\<rparr>) tickerCashFlow,
          rawDividends = rawDividends',
          fundamentals = fundamentals',
          businessSummary = (case longBusinessSummary tickerBrapi of
                               None \<Rightarrow> None
                             | Some s \<Rightarrow> if trim s = [] then None else Some (trim s))\<rparr>)"

text \<open>\<open>getFinancialData\<close>; \<open>fetched\<close> is what \<open>await fetchFinancials(t)\<close> returned, \<open>None\<close>
  for \<open>null\<close>. A thrown error is \<open>Inl\<close>.\<close>

definition getFinancialData ::
  "js_env \<Rightarrow> string \<Rightarrow> SupabaseFinancials option \<Rightarrow> error + FinancialData" where
  "getFinancialData env tk fetched =
     (let t = replace_SA_suffix (trim (toUpperCase tk))
      in case fetched of
           None \<Rightarrow> Inl (SemDados t)
         | Some supa \<Rightarrow>
             (let tickerIncome = filterByTicker (income supa) t;
                  tickerBalance = filterByTicker (balance supa) t;
                  tickerCashFlow = filterByTicker (cashFlow supa) t;
                  tickerBrapi = findBrapi (brapi supa) t;
                  missing = (if tickerBrapi = None then [Cotacao] else [])
                            @ (if tickerIncome = [] then [DRE] else [])
                            @ (if tickerBalance = [] then [Balanco] else [])
                            @ (if tickerCashFlow = [] then [FluxoDeCaixa] else [])
              in case tickerBrapi of
                   None \<Rightarrow> Inl (DadosIncompletos t missing)
                 | Some b \<Rightarrow>
                     if tickerIncome = [] \<or> tickerBalance = [] \<or> tickerCashFlow = []
                     then Inl (DadosIncompletos t missing)
                     else Inr (buildSnapshot env t b tickerIncome tickerBalance tickerCashFlow
                                 (dividends supa))))"

subsection \<open>WACC\<close>

text \<open>\<open>calculateWacc\<close> returns the object \<open>{ wacc, ke }\<close>, here the pair \<open>(wacc, ke)\<close>.\<close>

definition calculateWacc :: "FinancialData \<Rightarrow> ValuationAssumptions \<Rightarrow> real \<times> real" where
  "calculateWacc data a =
     (let ke = riskFreeRate a + (ValuationAssumptions.beta a * equityRiskPremium a);
          rawKd = (if debt data > 0 \<and> interestExpenses data > 0
                   then (let implied = interestExpenses data / debt data
                         in if implied \<ge> 0.01 \<and> implied \<le> 0.60 then implied else costOfDebt a)
                   else costOfDebt a);
          kdNet = rawKd * (1 - 0.34);
          E = FinancialData.price data * FinancialData.sharesOutstanding data;
          D = debt data;
          V = E + D
      in if V = 0 then (ke, ke)
         else ((ke * E / V) + (kdNet * D / V), ke))"

subsection \<open>Valuation methods\<close>

text \<open>The loop \<open>for (let i = 1; i <= 5; i++)\<close> of \<open>calcDCF\<close>, on the pair
  \<open>(currentFCF, pvCF)\<close>; \<open>Math.pow(1 + wacc, i)\<close> is the power of reals.\<close>

function calcDCF_loop :: "real \<Rightarrow> real \<Rightarrow> nat \<Rightarrow> real \<Rightarrow> real \<Rightarrow> real \<times> real" where
  "calcDCF_loop gRev w i currentFCF pvCF =
     (if i \<le> 5
      then (let currentFCF' = currentFCF * (1 + gRev);
                pvCF' = pvCF + currentFCF' / (1 + w) ^ i
            in calcDCF_loop gRev w (i + 1) currentFCF' pvCF')
      else (currentFCF, pvCF))"
  by pat_completeness auto
termination
  by (relation "measure (\<lambda>(gRev, w, i, currentFCF, pvCF). 6 - i)") auto

definition calcDCF :: "FinancialData \<Rightarrow> real \<Rightarrow> real \<Rightarrow> real \<Rightarrow> real" where
  "calcDCF data w gPerp gRev =
     (let baseFCF = freeCashFlow data;
          (currentFCF, pvCF) = calcDCF_loop gRev w 1 (baseFCF * (1 + gRev)) 0;
          termFCF = currentFCF * (1 + gPerp);
          termVal = termFCF / (w - gPerp);
          pvTerm = termVal / (1 + w) ^ 5;
          ev = pvCF + pvTerm;
          eqVal = ev + cashAndEquivalents data - debt data
      in max 0 (eqVal / FinancialData.sharesOutstanding data))"

definition calcGordon :: "FinancialData \<Rightarrow> real \<Rightarrow> real \<Rightarrow> real" where
  "calcGordon data ke g =
     (let d1 = currentEPS data * (1 + g)
      in if ke \<le> g then 0 else d1 / (ke - g))"

definition calcGraham :: "FinancialData \<Rightarrow> real" where
  "calcGraham data =
     (let lpa' = currentEPS data;
          vpa' = (if FinancialData.sharesOutstanding data > 0
                  then equity data / FinancialData.sharesOutstanding data else 0)
      in if lpa' \<le> 0 \<or> vpa' \<le> 0 then 0 else sqrt (22.5 * lpa' * vpa'))"

definition calcEVA :: "FinancialData \<Rightarrow> real \<Rightarrow> real \<Rightarrow> real" where
  "calcEVA data w gRev =
     (let year1Ebit = FinancialData.ebit data * (1 + gRev) * (1 + gRev);
          nopat = year1Ebit * 0.66;
          capCharge = investedCapital data * w;
          eva = nopat - capCharge;
          mva = eva / w;
          eqVal = investedCapital data + mva - debt data + cashAndEquivalents data
      in max 0 (eqVal / FinancialData.sharesOutstanding data))"

definition calcMultiples :: "FinancialData \<Rightarrow> real" where
  "calcMultiples data =
     (let byPE = (netIncome data * sectorPE data) / FinancialData.sharesOutstanding data;
          impliedEV = FinancialData.ebit data * sectorEVEBITDA data;
          byEBITDA = (impliedEV - debt data + cashAndEquivalents data)
                       / FinancialData.sharesOutstanding data
      in (byPE + byEBITDA) / 2)"

subsection \<open>Perform valuation\<close>

text \<open>\<open>Math.min(...values)\<close> and \<open>Math.max(...values)\<close>: with no argument they are
  \<open>Infinity\<close> and \<open>-Infinity\<close>.\<close>

fun Math_min :: "real list \<Rightarrow> jsnum" where
  "Math_min [] = PosInfinity"
| "Math_min (v # vs) =
     (case Math_min vs of
        Num m \<Rightarrow> Num (min v m)
      | PosInfinity \<Rightarrow> Num v
      | NegInfinity \<Rightarrow> NegInfinity)"

fun Math_max :: "real list \<Rightarrow> jsnum" where
  "Math_max [] = NegInfinity"
| "Math_max (v # vs) =
     (case Math_max vs of
        Num m \<Rightarrow> Num (max v m)
      | NegInfinity \<Rightarrow> Num v
      | PosInfinity \<Rightarrow> PosInfinity)"

definition trace_of :: "string \<Rightarrow> real \<Rightarrow> CalculationTrace" where
  "trace_of f val = \<lparr>formula = f, inputs = [], steps = [], finalResult = val\<rparr>"

text \<open>The label of the sector-multiples method (\<open>Multiplos\<close>, its \<open>u\<close> with an acute
  accent), in UTF-8.\<close>

definition Multiplos :: string where
  "Multiplos = ''M'' @ [CHR 0xC3, CHR 0xBA] @ ''ltiplos''"

definition sensitivity_steps :: "real list" where
  "sensitivity_steps = [-2, -1, 0, 1, 2]"

text \<open>\<open>performValuation\<close>. In \<open>totalW\<close>, \<open>weighted\<close> and the \<open>weight\<close> fields every operation
  rounds to a double, in the order in which JavaScript evaluates it (sums and products from
  left to right).\<close>

definition performValuation ::
  "FinancialData \<Rightarrow> ValuationAssumptions \<Rightarrow> ValuationWeights option \<Rightarrow> ComprehensiveValuation" where
  "performValuation data assumptions customWeights =
     (let (w, ke) = calculateWacc data assumptions;
          gPerp = perpetualGrowth assumptions;
          gRev = projectedRevenueGrowth assumptions;
          dcf = calcDCF data w gPerp gRev;
          gordon = calcGordon data ke gPerp;
          graham = calcGraham data;
          eva = calcEVA data w gRev;
          multiples = calcMultiples data;
          ws = (case customWeights of Some cw \<Rightarrow> cw | None \<Rightarrow> DEFAULT_WEIGHTS_MATURE);
          totalW = binary64 (binary64 (binary64 (binary64
                     (ValuationWeights.DCF ws + ValuationWeights.GORDON ws)
                     + ValuationWeights.EVA ws) + ValuationWeights.MULTIPLES ws)
                     + ValuationWeights.GRAHAM ws);
          weighted = binary64 (binary64 (binary64 (binary64 (binary64
                       (binary64 (dcf * ValuationWeights.DCF ws)
                        + binary64 (gordon * ValuationWeights.GORDON ws))
                       + binary64 (eva * ValuationWeights.EVA ws))
                       + binary64 (multiples * ValuationWeights.MULTIPLES ws))
                       + binary64 (graham * ValuationWeights.GRAHAM ws)) / totalW);
          rs = [
            \<lparr>method = ValuationMethodType.DCF, ValuationResult.fairValue = dcf,
             weight = binary64 (ValuationWeights.DCF ws / totalW),
             upside = dcf / FinancialData.price data - 1,
             details = ''FCD'', trace = trace_of ''DCF'' dcf\<rparr>,
            \<lparr>method = ValuationMethodType.GORDON, ValuationResult.fairValue = gordon,
             weight = binary64 (ValuationWeights.GORDON ws / totalW),
             upside = gordon / FinancialData.price data - 1,
             details = ''Gordon'', trace = trace_of ''Gordon'' gordon\<rparr>,
            \<lparr>method = ValuationMethodType.EVA, ValuationResult.fairValue = eva,
             weight = binary64 (ValuationWeights.EVA ws / totalW),
             upside = eva / FinancialData.price data - 1,
             details = ''EVA'', trace = trace_of ''EVA'' eva\<rparr>,
            \<lparr>method = ValuationMethodType.MULTIPLES, ValuationResult.fairValue = multiples,
             weight = binary64 (ValuationWeights.MULTIPLES ws / totalW),
             upside = multiples / FinancialData.price data - 1,
             details = Multiplos, trace = trace_of Multiplos multiples\<rparr>,
            \<lparr>method = ValuationMethodType.GRAHAM, ValuationResult.fairValue = graham,
             weight = binary64 (ValuationWeights.GRAHAM ws / totalW),
             upside = graham / FinancialData.price data - 1,
             details = ''Graham'', trace = trace_of ''Graham'' graham\<rparr>];
          values = filter (\<lambda>v. v > 0) (map ValuationResult.fairValue rs);
          matrix = map (\<lambda>wStep.
                      (let simW = w + wStep * 0.005
                       in map (\<lambda>gStep.
                            (let simG = gPerp + gStep * 0.005
                             in \<lparr>SensitivityCell.wacc = simW, growth = simG,
                                 SensitivityCell.fairValue = calcDCF data simW simG gRev\<rparr>))
                          sensitivity_steps))
                    sensitivity_steps
      in \<lparr>ComprehensiveValuation.ticker = FinancialData.ticker data,
          currentPrice = FinancialData.price data,
          weightedFairValue = weighted,
          calculatedWacc = w,
          totalUpside = weighted / FinancialData.price data - 1,
          results = rs,
          priceRange = \<lparr>min_price = Math_min values, max_price = Math_max values\<rparr>,
          sensitivityMatrix = matrix\<rparr>)"

section \<open>Reference definitions and concrete inputs\<close>

text \<open>The DCF recurrence in the words of the specification: the free cash flow of year
  \<open>i\<close> is the base free cash flow compounded \<open>i\<close> times at the revenue-growth rate, for
  \<open>i = 1..5\<close>, each discounted at WACC; the terminal value is the flow of year 5 grown one
  more period at perpetual growth, divided by WACC minus perpetual growth, and discounted
  back 5 periods; fair value = (flows + terminal + cash - debt) / shares.\<close>

definition dcf_spec :: "FinancialData \<Rightarrow> real \<Rightarrow> real \<Rightarrow> real \<Rightarrow> real" where
  "dcf_spec data w gPerp gRev =
     (let fcf = (\<lambda>i::nat. freeCashFlow data * (1 + gRev) ^ i);
          flows = sum_list (map (\<lambda>i. fcf i / (1 + w) ^ i) [1, 2, 3, 4, 5]);
          terminal = (fcf 5 * (1 + gPerp)) / (w - gPerp);
          ev = flows + terminal / (1 + w) ^ 5
      in (ev + cashAndEquivalents data - debt data) / FinancialData.sharesOutstanding data)"















text \<open>A snapshot with every amount zero and the constants \<open>getFinancialData\<close> always
  sets; the examples below update it.\<close>

definition blank_fundamentals :: FundamentalData where
  "blank_fundamentals =
     \<lparr>symbol = [], name = [], FundamentalData.sector = ''-'', subSector = ''-'',
      FundamentalData.type = ''ON'', FundamentalData.price = 0, date = [],
      min52Week = 0, max52Week = 0, volMed2m = 0, FundamentalData.marketCap = 0, firmValue = 0,
      lastBalanceDate = ''-'', FundamentalData.sharesOutstanding = 0, changeDay = 0,
      change12m = 0, FundamentalData.pl = 0, FundamentalData.pvp = 0, pebit = 0, psr = 0,
      divYield = 0, evEbitda = 0, evEbit = 0, FundamentalData.lpa = 0, FundamentalData.vpa = 0,
      grossMargin = 0, ebitMargin = 0, ebitdaMargin = 0, netMargin = 0,
      FundamentalData.roic = 0, FundamentalData.roe = 0, currentLiquidity = 0, debtEquity = 0,
      debtEbitda = 0\<rparr>"

definition blank_data :: FinancialData where
  "blank_data =
     \<lparr>FinancialData.ticker = [], FinancialData.price = 0, currency = ''BRL'',
      FinancialData.sharesOutstanding = 0, FinancialData.beta = 1, FinancialData.wacc = 0.12,
      growthRate = 0.05, FinancialData.roe = 0, payoutRatio = 0.25, revenue = 0,
      FinancialData.ebit = 0, netIncome = 0, interestExpenses = 0, FinancialData.taxRate = 0.34,
      equity = 0, debt = 0, cashAndEquivalents = 0, investedCapital = 0, freeCashFlow = 0,
      FinancialData.depreciation = 0, volatility = 0.30, sectorPE = 8.0, sectorEVEBITDA = 6.0,
      currentPE = 0, currentEVEBITDA = 0, currentEPS = 0, rawIncome = [], rawBalance = [],
      rawCashFlow = [], rawDividends = [], fundamentals = blank_fundamentals,
      businessSummary = None\<rparr>"

text \<open>The worked example of the specification: freeCashFlow = 1,000,000,
  shares = 100,000, cash = 0, debt = 0.\<close>

definition dcf_example :: FinancialData where
  "dcf_example = blank_data
     \<lparr>freeCashFlow := 1000000, FinancialData.sharesOutstanding := 100000,
      cashAndEquivalents := 0, debt := 0\<rparr>"

text \<open>A loss-making company: price 10, 100 shares, EBIT and net income -100, earnings per
  share -1, equity and invested capital 1000, free cash flow -50, no debt, no cash.\<close>

definition loss_example :: FinancialData where
  "loss_example = blank_data
     \<lparr>FinancialData.ticker := ''LOSS3'', FinancialData.price := 10,
      FinancialData.sharesOutstanding := 100, FinancialData.ebit := -100, netIncome := -100,
      equity := 1000, investedCapital := 1000, freeCashFlow := -50, currentEPS := -1\<rparr>"

text \<open>A profitable company: price 10, 100 shares, EBIT 200, net income 100, earnings
  per share 1, equity and invested capital 1000, free cash flow 100, no debt, no cash.\<close>

definition profit_example :: FinancialData where
  "profit_example = blank_data
     \<lparr>FinancialData.ticker := ''GAIN3'', FinancialData.price := 10,
      FinancialData.sharesOutstanding := 100, FinancialData.ebit := 200, netIncome := 100,
      equity := 1000, investedCapital := 1000, freeCashFlow := 100, currentEPS := 1\<rparr>"


text \<open>The profitable company with no book equity, so that the Graham method alone
  returns 0.\<close>

definition graham_zero_example :: FinancialData where
  "graham_zero_example = profit_example\<lparr>equity := 0\<rparr>"

text \<open>A platform for the examples: the run happens on 2 November 2026, and two end
  dates are known to it.\<close>

definition example_env :: js_env where
  "example_env =
     \<lparr>today = ''02/11/2026'',
      getTime = (\<lambda>s. case map_of [(''2023-12-31'', 1703980800000), (''2022-12-31'', 1672444800000)] s of
                       Some ms \<Rightarrow> ms | None \<Rightarrow> 0),
      toLocaleDateString = (\<lambda>s. case map_of [(''2023-12-31'', ''31/12/2023''),
                                               (''2022-12-31'', ''31/12/2022'')] s of
                                  Some d \<Rightarrow> d | None \<Rightarrow> ''Invalid Date'')\<rparr>"

text \<open>Raw rows: a quote row with every optional field absent, and one quote, income,
  balance-sheet and cash-flow row of the fiscal year 2023.\<close>

definition blank_brapi :: brapi_row where
  "blank_brapi =
     \<lparr>symbol = [], longName = None, shortName = None, brapi_row.sector = None, industry = None,
      longBusinessSummary = None, regularMarketPrice = None, regularMarketChangePercent = None,
      fiftyTwoWeekChange = None, fiftyTwoWeekLow = None, fiftyTwoWeekHigh = None,
      averageDailyVolume3Month = None, brapi_row.marketCap = None, enterpriseValue = None,
      brapi_row.sharesOutstanding = None, earningsPerShare = None, bookValue = None,
      beta5y = None, revenueGrowth = None, brapi_row.pl = None, priceEarnings = None,
      brapi_row.pvp = None, priceToBook = None, brapi_row.lpa = None, brapi_row.vpa = None,
      brapi_row.roe = None, brapi_row.roic = None, net_margin = None, ebitda_margin = None,
      enterpriseToEbitda = None, ev_ebit = None, debt_ebitda = None, dividendYield = None\<rparr>"

definition vale_quote :: brapi_row where
  "vale_quote = blank_brapi
     \<lparr>symbol := ''VALE3'', longName := Some ''Vale S.A.'', regularMarketPrice := Some 60,
      brapi_row.marketCap := Some 6000, earningsPerShare := Some 4\<rparr>"

definition vale_income :: income_row where
  "vale_income =
     \<lparr>symbol = ''VALE3'', end_date = ''2023-12-31'', period = Some ''2023'',
      statement_row.type = Some ''yearly'', total_revenue = Some 2000, gross_profit = Some 800,
      income_row.ebit = Some 500, net_income = Some 400, interest_expense = Some (-50)\<rparr>"

definition vale_balance :: balance_row where
  "vale_balance =
     \<lparr>symbol = ''VALE3'', end_date = ''2023-12-31'', period = Some ''2023'',
      statement_row.type = Some ''yearly'', total_assets = Some 5000,
      total_current_assets = Some 1000, total_current_liabilities = Some 500, cash = Some 300,
      short_term_investments = None, long_term_debt = Some 1000, short_long_term_debt = Some 200,
      total_stockholder_equity = Some 2000\<rparr>"

definition vale_cashflow :: cashflow_row where
  "vale_cashflow =
     \<lparr>symbol = ''VALE3'', end_date = ''2023-12-31'', period = Some ''2023'',
      statement_row.type = Some ''yearly'', total_cash_from_operating_activities = Some 600,
      capital_expenditures = Some (-200), cashflow_row.depreciation = Some 100\<rparr>"

text \<open>What the fetch returns in the examples: one row per category, all keyed \<open>k\<close>, and
  no dividend row. \<open>vale_lower_rows\<close> are the rows keyed \<open>vale3.sa\<close>; \<open>loss_rows\<close> have
  a quote without market capitalisation and shares, earnings per share 2, and a net
  income of -1000.\<close>

definition rows_keyed :: "string \<Rightarrow> brapi_row \<Rightarrow> income_row \<Rightarrow> SupabaseFinancials" where
  "rows_keyed k q i =
     \<lparr>income = [i\<lparr>symbol := k\<rparr>], balance = [vale_balance\<lparr>symbol := k\<rparr>],
      cashFlow = [vale_cashflow\<lparr>symbol := k\<rparr>], brapi = [q\<lparr>symbol := k\<rparr>], dividends = []\<rparr>"

definition vale_rows :: SupabaseFinancials where
  "vale_rows = rows_keyed ''VALE3'' vale_quote vale_income"

definition vale_lower_rows :: SupabaseFinancials where
  "vale_lower_rows = rows_keyed ''vale3.sa'' vale_quote vale_income"

definition loss_rows :: SupabaseFinancials where
  "loss_rows = rows_keyed ''LOSS3''
     (blank_brapi\<lparr>regularMarketPrice := Some 5, earningsPerShare := Some 2\<rparr>)
     (vale_income\<lparr>net_income := Some (-1000)\<rparr>)"

text \<open>A loss-making company as the tables deliver it: price 10, market capitalisation
  1000, earnings per share -1, EBIT and net income -100, equity 1000, operating cash flow
  -50, no debt, no cash.\<close>

definition deficit_rows :: SupabaseFinancials where
  "deficit_rows =
     \<lparr>income = [vale_income\<lparr>symbol := ''LOSS3'', total_revenue := Some 500, gross_profit := Some 50,
                  income_row.ebit := Some (-100), net_income := Some (-100),
                  interest_expense := None\<rparr>],
      balance = [vale_balance\<lparr>symbol := ''LOSS3'', cash := None, long_term_debt := None,
                   short_long_term_debt := None, total_stockholder_equity := Some 1000\<rparr>],
      cashFlow = [vale_cashflow\<lparr>symbol := ''LOSS3'',
                    total_cash_from_operating_activities := Some (-50),
                    capital_expenditures := None\<rparr>],
      brapi = [blank_brapi\<lparr>symbol := ''LOSS3'', regularMarketPrice := Some 10,
                 brapi_row.marketCap := Some 1000, brapi_row.lpa := Some (-1)\<rparr>],
      dividends = []\<rparr>"

text \<open>Rows keyed \<open>VALE3\<close> from which no share count can be determined: the quote has a
  price of 5 and earnings per share of 2 but no market capitalisation and no
  shares-outstanding field, and the income row has no net income.\<close>

definition default_rows :: SupabaseFinancials where
  "default_rows = rows_keyed ''VALE3''
     (blank_brapi\<lparr>regularMarketPrice := Some 5, earningsPerShare := Some 2\<rparr>)
     (vale_income\<lparr>net_income := None\<rparr>)"

text \<open>The rows keyed \<open>VALE3\<close> without the income statements.\<close>

definition no_income_rows :: SupabaseFinancials where
  "no_income_rows = vale_rows\<lparr>income := []\<rparr>"

text \<open>The rows of a category for the resolved ticker in the words of the specification:
  first the rows whose symbol equals the ticker up to case; if there is none, the rows
  whose symbol, up to case, starts with the ticker stripped of its final share-class digits
  and letters.\<close>

definition spec_rows_for_ticker :: "'a has_symbol_scheme list \<Rightarrow> string \<Rightarrow> 'a has_symbol_scheme list" where
  "spec_rows_for_ticker rows t =
     (if \<exists>r \<in> set rows. toUpperCase (symbol r) = toUpperCase t
      then filter (\<lambda>r. toUpperCase (symbol r) = toUpperCase t) rows
      else filter (\<lambda>r. startsWith (toUpperCase (symbol r))
                          (replace_digits_F_suffix (toUpperCase t))) rows)"

text \<open>The fields of a snapshot that \<open>calculateWacc\<close> and the five methods read.\<close>

definition valuation_inputs :: "FinancialData \<Rightarrow> real list" where
  "valuation_inputs d =
     [FinancialData.price d, FinancialData.sharesOutstanding d, FinancialData.ebit d, netIncome d,
      equity d, investedCapital d, freeCashFlow d, currentEPS d, debt d, cashAndEquivalents d,
      interestExpenses d, sectorPE d, sectorEVEBITDA d]"

section \<open>Properties of the valuation methods\<close>

lemma calcDCF_loop_step:
  "i \<le> 5 \<Longrightarrow> calcDCF_loop g w i c p
     = calcDCF_loop g w (Suc i) (c * (1 + g)) (p + c * (1 + g) / (1 + w) ^ i)"
  by (subst calcDCF_loop.simps) (simp add: Let_def)

lemma calcDCF_loop_exit: "5 < i \<Longrightarrow> calcDCF_loop g w i c p = (c, p)"
  by (subst calcDCF_loop.simps) simp

lemma calcDCF_loop_unroll:
  "calcDCF_loop g w 1 c p =
     (c * (1 + g) ^ 5,
      p + c * (1 + g) / (1 + w) + c * (1 + g) ^ 2 / (1 + w) ^ 2 + c * (1 + g) ^ 3 / (1 + w) ^ 3
        + c * (1 + g) ^ 4 / (1 + w) ^ 4 + c * (1 + g) ^ 5 / (1 + w) ^ 5)"
proof -
  have "calcDCF_loop g w 1 c p = calcDCF_loop g w (Suc 0) c p" by simp
  also have "\<dots> = calcDCF_loop g w (Suc (Suc 0)) (c * (1 + g)) (p + c * (1 + g) / (1 + w) ^ Suc 0)"
    by (rule calcDCF_loop_step) simp
  also have "\<dots> = calcDCF_loop g w (Suc (Suc (Suc 0))) (c * (1 + g) * (1 + g))
       (p + c * (1 + g) / (1 + w) ^ Suc 0 + c * (1 + g) * (1 + g) / (1 + w) ^ Suc (Suc 0))"
    by (rule calcDCF_loop_step) simp
  also have "\<dots> = calcDCF_loop g w (Suc (Suc (Suc (Suc 0)))) (c * (1 + g) * (1 + g) * (1 + g))
       (p + c * (1 + g) / (1 + w) ^ Suc 0 + c * (1 + g) * (1 + g) / (1 + w) ^ Suc (Suc 0)
          + c * (1 + g) * (1 + g) * (1 + g) / (1 + w) ^ Suc (Suc (Suc 0)))"
    by (rule calcDCF_loop_step) simp
  also have "\<dots> = calcDCF_loop g w (Suc (Suc (Suc (Suc (Suc 0))))) (c * (1 + g) * (1 + g) * (1 + g) * (1 + g))
       (p + c * (1 + g) / (1 + w) ^ Suc 0 + c * (1 + g) * (1 + g) / (1 + w) ^ Suc (Suc 0)
          + c * (1 + g) * (1 + g) * (1 + g) / (1 + w) ^ Suc (Suc (Suc 0))
          + c * (1 + g) * (1 + g) * (1 + g) * (1 + g) / (1 + w) ^ Suc (Suc (Suc (Suc 0))))"
    by (rule calcDCF_loop_step) simp
  also have "\<dots> = calcDCF_loop g w (Suc (Suc (Suc (Suc (Suc (Suc 0))))))
       (c * (1 + g) * (1 + g) * (1 + g) * (1 + g) * (1 + g))
       (p + c * (1 + g) / (1 + w) ^ Suc 0 + c * (1 + g) * (1 + g) / (1 + w) ^ Suc (Suc 0)
          + c * (1 + g) * (1 + g) * (1 + g) / (1 + w) ^ Suc (Suc (Suc 0))
          + c * (1 + g) * (1 + g) * (1 + g) * (1 + g) / (1 + w) ^ Suc (Suc (Suc (Suc 0)))
          + c * (1 + g) * (1 + g) * (1 + g) * (1 + g) * (1 + g) / (1 + w) ^ Suc (Suc (Suc (Suc (Suc 0)))))"
    by (rule calcDCF_loop_step) simp
  also have "\<dots> = (c * (1 + g) * (1 + g) * (1 + g) * (1 + g) * (1 + g),
       p + c * (1 + g) / (1 + w) ^ Suc 0 + c * (1 + g) * (1 + g) / (1 + w) ^ Suc (Suc 0)
          + c * (1 + g) * (1 + g) * (1 + g) / (1 + w) ^ Suc (Suc (Suc 0))
          + c * (1 + g) * (1 + g) * (1 + g) * (1 + g) / (1 + w) ^ Suc (Suc (Suc (Suc 0)))
          + c * (1 + g) * (1 + g) * (1 + g) * (1 + g) * (1 + g) / (1 + w) ^ Suc (Suc (Suc (Suc (Suc 0)))))"
    by (rule calcDCF_loop_exit) simp
  also have "\<dots> = (c * (1 + g) ^ 5,
      p + c * (1 + g) / (1 + w) + c * (1 + g) ^ 2 / (1 + w) ^ 2 + c * (1 + g) ^ 3 / (1 + w) ^ 3
        + c * (1 + g) ^ 4 / (1 + w) ^ 4 + c * (1 + g) ^ 5 / (1 + w) ^ 5)"
    by (simp add: eval_nat_numeral mult.assoc)
  finally show ?thesis .
qed

lemma calcDCF_closed:
  "calcDCF data w gPerp gRev =
     max 0 ((sum_list (map (\<lambda>i. freeCashFlow data * (1 + gRev) ^ (i + 1) / (1 + w) ^ i) [1, 2, 3, 4, 5])
             + (freeCashFlow data * (1 + gRev) ^ 6 * (1 + gPerp) / (w - gPerp)) / (1 + w) ^ 5
             + cashAndEquivalents data - debt data) / FinancialData.sharesOutstanding data)"
proof -
  have p: "\<And>x::real. x * x ^ 5 = x ^ 6" "\<And>x::real. x * x ^ 4 = x ^ 5" "\<And>x::real. x * x ^ 3 = x ^ 4"
     "\<And>x::real. x * x ^ 2 = x ^ 3" "\<And>x::real. x * x = x ^ 2"
    by (simp_all add: eval_nat_numeral)
  show ?thesis
    unfolding calcDCF_def Let_def calcDCF_loop_unroll
    by (simp add: mult.assoc p add.assoc)
qed


lemma dcf_example_fields:
  "freeCashFlow dcf_example = 1000000" "FinancialData.sharesOutstanding dcf_example = 100000"
  "cashAndEquivalents dcf_example = 0" "debt dcf_example = 0"
  by (simp_all add: dcf_example_def blank_data_def)

lemma calcDCF_dcf_example: "calcDCF dcf_example 0.12 0.05 0.05 = 157.5"
  unfolding calcDCF_closed dcf_example_fields by (simp add: power_divide)

lemma dcf_spec_dcf_example: "dcf_spec dcf_example 0.12 0.05 0.05 = 150"
  unfolding dcf_spec_def Let_def dcf_example_fields by (simp add: power_divide)

text \<open>C1, as the code computes it: for WACC above perpetual growth, \<open>calcDCF\<close> returns
  the larger of 0 and (sum of discounted flows + discounted terminal value + cash - debt) /
  shares, where the flow of year \<open>i\<close> (\<open>i = 1..5\<close>) is the base free cash flow compounded
  \<open>i + 1\<close> times at the revenue-growth rate and discounted \<open>i\<close> periods at WACC, and the
  terminal value is the base free cash flow compounded 6 times, grown one more period at
  perpetual growth, divided by WACC minus perpetual growth and discounted 5 periods.
  The base flow is grown once before the loop (\<open>baseFCF * (1 + gRev)\<close>) and once more in
  each iteration, as \<open>calcEVA\<close> grows EBIT twice for its first year. Said otherwise:
  \<open>calcDCF\<close> is the recurrence of the specification applied to a base flow already grown
  one period, floored at 0.\<close>

theorem calcDCF_recurrence:
  assumes "gPerp < w"
  shows "calcDCF data w gPerp gRev =
     max 0 ((sum_list (map (\<lambda>i. freeCashFlow data * (1 + gRev) ^ (i + 1) / (1 + w) ^ i) [1, 2, 3, 4, 5])
             + (freeCashFlow data * (1 + gRev) ^ 6 * (1 + gPerp) / (w - gPerp)) / (1 + w) ^ 5
             + cashAndEquivalents data - debt data) / FinancialData.sharesOutstanding data) \<and>
   calcDCF data w gPerp gRev =
     max 0 (dcf_spec (data\<lparr>freeCashFlow := freeCashFlow data * (1 + gRev)\<rparr>) w gPerp gRev)"
proof
  show "calcDCF data w gPerp gRev =
     max 0 ((sum_list (map (\<lambda>i. freeCashFlow data * (1 + gRev) ^ (i + 1) / (1 + w) ^ i) [1, 2, 3, 4, 5])
             + (freeCashFlow data * (1 + gRev) ^ 6 * (1 + gPerp) / (w - gPerp)) / (1 + w) ^ 5
             + cashAndEquivalents data - debt data) / FinancialData.sharesOutstanding data)"
    by (rule calcDCF_closed)
  have p: "(1 + gRev) ^ 6 = (1 + gRev) * (1 + gRev) ^ 5"
    by (simp add: eval_nat_numeral)
  show "calcDCF data w gPerp gRev =
     max 0 (dcf_spec (data\<lparr>freeCashFlow := freeCashFlow data * (1 + gRev)\<rparr>) w gPerp gRev)"
    unfolding calcDCF_closed dcf_spec_def Let_def
    by (simp add: p mult.assoc add.assoc)
qed

text \<open>C1, the worked example under the code's recurrence: 157.5 per share.\<close>

theorem calcDCF_recurrence_witness:
  "(0.05::real) < 0.12 \<and> calcDCF dcf_example 0.12 0.05 0.05 = 157.5"
proof -
  have h: "(0.05::real) < 0.12" by simp
  from calcDCF_recurrence [OF h, of dcf_example "0.05"]
  have "calcDCF dcf_example 0.12 0.05 0.05 =
     max 0 ((sum_list (map (\<lambda>i. freeCashFlow dcf_example * (1 + 0.05) ^ (i + 1) / (1 + 0.12) ^ i) [1, 2, 3, 4, 5])
             + (freeCashFlow dcf_example * (1 + 0.05) ^ 6 * (1 + 0.05) / (0.12 - 0.05)) / (1 + 0.12) ^ 5
             + cashAndEquivalents dcf_example - debt dcf_example)
            / FinancialData.sharesOutstanding dcf_example)"
    by (rule conjunct1)
  also have "\<dots> = 157.5"
    unfolding dcf_example_fields by (simp add: power_divide)
  finally show ?thesis using h by simp
qed

text \<open>C1 as stated fails on the worked example of the specification: the recurrence of the
  specification gives 150 per share, \<open>calcDCF\<close> gives 157.5, a relative difference of 5
  percent, far beyond the tolerance 1e-6.\<close>

theorem calcDCF_spec_recurrence_counterexample:
  "dcf_spec dcf_example 0.12 0.05 0.05 = 150 \<and> calcDCF dcf_example 0.12 0.05 0.05 = 157.5 \<and>
   \<not> \<bar>calcDCF dcf_example 0.12 0.05 0.05 - dcf_spec dcf_example 0.12 0.05 0.05\<bar>
       \<le> 0.000001 * \<bar>dcf_spec dcf_example 0.12 0.05 0.05\<bar>"
  unfolding calcDCF_dcf_example dcf_spec_dcf_example by simp

lemma Math_min_Min: "Math_min vs = (if vs = [] then PosInfinity else Num (Min (set vs)))"
  by (induction vs) (auto simp: min_def Min_insert2 split: jsnum.splits)

lemma Math_max_Max: "Math_max vs = (if vs = [] then NegInfinity else Num (Max (set vs)))"
  by (induction vs) (auto simp: max_def Max_insert2 split: jsnum.splits)

lemma results_fairValues:
  "map ValuationResult.fairValue (results (performValuation data a cw)) =
     [calcDCF data (fst (calculateWacc data a)) (perpetualGrowth a) (projectedRevenueGrowth a),
      calcGordon data (snd (calculateWacc data a)) (perpetualGrowth a),
      calcEVA data (fst (calculateWacc data a)) (projectedRevenueGrowth a),
      calcMultiples data,
      calcGraham data]"
  by (simp add: performValuation_def Let_def split: prod.splits)

lemma priceRange_performValuation:
  "priceRange (performValuation data a cw) =
     \<lparr>min_price = Math_min (filter (\<lambda>v. v > 0) (map ValuationResult.fairValue (results (performValuation data a cw)))),
      max_price = Math_max (filter (\<lambda>v. v > 0) (map ValuationResult.fairValue (results (performValuation data a cw))))\<rparr>"
  by (simp add: performValuation_def Let_def split: prod.splits)

lemma all_less_5: "(\<forall>i<5. P i) \<longleftrightarrow> P (0::nat) \<and> P 1 \<and> P 2 \<and> P 3 \<and> P 4"
proof -
  have "\<And>i::nat. i < 5 \<longleftrightarrow> i = 0 \<or> i = 1 \<or> i = 2 \<or> i = 3 \<or> i = 4" by arith
  then show ?thesis by auto
qed

lemma all_less_4: "(\<forall>i<4. P i) \<longleftrightarrow> P (0::nat) \<and> P 1 \<and> P 2 \<and> P 3"
proof -
  have "\<And>i::nat. i < 4 \<longleftrightarrow> i = 0 \<or> i = 1 \<or> i = 2 \<or> i = 3" by arith
  then show ?thesis by auto
qed

lemma sensitivityMatrix_performValuation:
  "sensitivityMatrix (performValuation data a cw) =
     map (\<lambda>wStep. map (\<lambda>gStep.
            \<lparr>SensitivityCell.wacc = fst (calculateWacc data a) + wStep * 0.005,
             growth = perpetualGrowth a + gStep * 0.005,
             SensitivityCell.fairValue =
               calcDCF data (fst (calculateWacc data a) + wStep * 0.005)
                 (perpetualGrowth a + gStep * 0.005) (projectedRevenueGrowth a)\<rparr>)
          [-2, -1, 0, 1, 2]) [-2, -1, 0, 1, 2]"
  by (simp add: performValuation_def Let_def sensitivity_steps_def split: prod.splits)

lemma calculatedWacc_performValuation:
  "calculatedWacc (performValuation data a cw) = fst (calculateWacc data a)"
  by (simp add: performValuation_def Let_def split: prod.splits)

lemma results_hd_fairValue:
  "ValuationResult.fairValue (results (performValuation data a cw) ! 0) =
     calcDCF data (fst (calculateWacc data a)) (perpetualGrowth a) (projectedRevenueGrowth a)"
  by (simp add: performValuation_def Let_def split: prod.splits)

text \<open>C3: the sensitivity matrix of \<open>performValuation\<close> has 5 rows of 5 cells; the cell
  of row \<open>i\<close> and column \<open>j\<close> carries WACC = computed WACC + (i - 2) * 0.005 and growth =
  perpetual growth + (j - 2) * 0.005, and its fair value is \<open>calcDCF\<close> at these two rates
  with the revenue growth of the assumptions; WACC increases strictly from each row to the
  next and growth from each column to the next; the centre cell (row 2, column 2) equals
  the fair value of the DCF entry of the result list.\<close>

theorem sensitivity_matrix_grid:
  "let v = performValuation data a cw; m = sensitivityMatrix v
   in length m = 5 \<and> (\<forall>i<5. length (m ! i) = 5) \<and>
      (\<forall>i<5. \<forall>j<5.
         SensitivityCell.wacc (m ! i ! j) = calculatedWacc v + (real i - 2) * 0.005 \<and>
         growth (m ! i ! j) = perpetualGrowth a + (real j - 2) * 0.005 \<and>
         SensitivityCell.fairValue (m ! i ! j) =
           calcDCF data (calculatedWacc v + (real i - 2) * 0.005)
             (perpetualGrowth a + (real j - 2) * 0.005) (projectedRevenueGrowth a)) \<and>
      (\<forall>i<4. \<forall>j<5. SensitivityCell.wacc (m ! i ! j) < SensitivityCell.wacc (m ! (i + 1) ! j)) \<and>
      (\<forall>i<5. \<forall>j<4. growth (m ! i ! j) < growth (m ! i ! (j + 1))) \<and>
      calculatedWacc v = fst (calculateWacc data a) \<and>
      SensitivityCell.fairValue (m ! 2 ! 2) = ValuationResult.fairValue (results v ! 0)"
  unfolding Let_def all_less_5 all_less_4
  by (simp add: sensitivityMatrix_performValuation calculatedWacc_performValuation
        results_hd_fairValue)

lemma results_length: "length (results (performValuation data a cw)) = 5"
  by (simp add: performValuation_def Let_def split: prod.splits)

lemma set_results_nth:
  "set (results (performValuation data a cw)) = (\<lambda>j. results (performValuation data a cw) ! j) ` {..<5}"
  using results_length [of data a cw] by (auto simp: set_conv_nth)

text \<open>C9: the bounds of \<open>priceRange\<close> are the minimum and the maximum of the strictly
  positive fair values among the five results (\<open>+Infinity\<close> and \<open>-Infinity\<close> when there
  is none, as \<open>Math.min\<close> and \<open>Math.max\<close> have it); a method that returned 0 or less
  does not enter the range. In particular, when one method returns 0 and the four others
  return positive values, the range is taken over exactly these four.\<close>

theorem price_range_positive_values:
  "let v = performValuation data a cw;
       pos = filter (\<lambda>x. 0 < x) (map ValuationResult.fairValue (results v))
   in set pos = {x \<in> ValuationResult.fairValue ` set (results v). 0 < x} \<and>
      min_price (priceRange v) = (if pos = [] then PosInfinity else Num (Min (set pos))) \<and>
      max_price (priceRange v) = (if pos = [] then NegInfinity else Num (Max (set pos))) \<and>
      (\<forall>k<5. ValuationResult.fairValue (results v ! k) = 0 \<and>
               (\<forall>j<5. j \<noteq> k \<longrightarrow> 0 < ValuationResult.fairValue (results v ! j))
         \<longrightarrow> set pos = (\<lambda>j. ValuationResult.fairValue (results v ! j)) ` ({..<5} - {k}))"
proof -
  let ?v = "performValuation data a cw"
  let ?pos = "filter (\<lambda>x. 0 < x) (map ValuationResult.fairValue (results ?v))"
  have s: "set ?pos = {x \<in> ValuationResult.fairValue ` set (results ?v). 0 < x}" by auto
  have mn: "min_price (priceRange ?v) = (if ?pos = [] then PosInfinity else Num (Min (set ?pos)))"
    by (subst priceRange_performValuation) (simp add: Math_min_Min)
  have mx: "max_price (priceRange ?v) = (if ?pos = [] then NegInfinity else Num (Max (set ?pos)))"
    by (subst priceRange_performValuation) (simp add: Math_max_Max)
  have p: "set ?pos = (\<lambda>j. ValuationResult.fairValue (results ?v ! j)) ` ({..<5} - {k})"
    if "k < 5" "ValuationResult.fairValue (results ?v ! k) = 0"
      "\<forall>j<5. j \<noteq> k \<longrightarrow> 0 < ValuationResult.fairValue (results ?v ! j)" for k
  proof -
    have "set ?pos = {x \<in> (\<lambda>j. ValuationResult.fairValue (results ?v ! j)) ` {..<5}. 0 < x}"
      unfolding s set_results_nth by (simp add: image_image)
    also have "\<dots> = (\<lambda>j. ValuationResult.fairValue (results ?v ! j)) ` ({..<5} - {k})"
      using that by (auto simp: image_iff) 
    finally show ?thesis .
  qed
  from s mn mx p show ?thesis unfolding Let_def by blast
qed

text \<open>C10: when none of the five fair values is positive, \<open>performValuation\<close> (a total
  function with no failing branch) returns a result whose range has minimum
  \<open>+Infinity\<close> and maximum \<open>-Infinity\<close>.\<close>

theorem price_range_no_positive_value:
  assumes "\<forall>r \<in> set (results (performValuation data a cw)). ValuationResult.fairValue r \<le> 0"
  shows "min_price (priceRange (performValuation data a cw)) = PosInfinity \<and>
         max_price (priceRange (performValuation data a cw)) = NegInfinity"
proof -
  have "filter (\<lambda>x. 0 < x) (map ValuationResult.fairValue (results (performValuation data a cw))) = []"
    using assms by (auto simp: filter_empty_conv)
  then show ?thesis
    by (subst (1 2) priceRange_performValuation) simp
qed

lemma BASE_fields:
  "riskFreeRate BASE_assumptions = 0.15" "equityRiskPremium BASE_assumptions = 0.05"
  "ValuationAssumptions.beta BASE_assumptions = 1" "perpetualGrowth BASE_assumptions = 0.05"
  "projectedRevenueGrowth BASE_assumptions = 0.05" "costOfDebt BASE_assumptions = 0.16"
  by (simp_all add: BASE_assumptions_def SCENARIO_PRESETS_BASE_beta_def
        SCENARIO_PRESETS_BASE_projectedRevenueGrowth_def DEFAULT_COST_OF_DEBT_def)

lemma loss_example_fields:
  "FinancialData.price loss_example = 10" "FinancialData.sharesOutstanding loss_example = 100"
  "FinancialData.ebit loss_example = -100" "netIncome loss_example = -100"
  "equity loss_example = 1000" "investedCapital loss_example = 1000"
  "freeCashFlow loss_example = -50" "currentEPS loss_example = -1"
  "debt loss_example = 0" "cashAndEquivalents loss_example = 0"
  "interestExpenses loss_example = 0" "sectorPE loss_example = 8" "sectorEVEBITDA loss_example = 6"
  by (simp_all add: loss_example_def blank_data_def)

lemma profit_example_fields:
  "FinancialData.price profit_example = 10" "FinancialData.sharesOutstanding profit_example = 100"
  "FinancialData.ebit profit_example = 200" "netIncome profit_example = 100"
  "equity profit_example = 1000" "investedCapital profit_example = 1000"
  "freeCashFlow profit_example = 100" "currentEPS profit_example = 1"
  "debt profit_example = 0" "cashAndEquivalents profit_example = 0"
  "interestExpenses profit_example = 0" "sectorPE profit_example = 8" "sectorEVEBITDA profit_example = 6"
  by (simp_all add: profit_example_def blank_data_def)

lemma graham_zero_example_fields:
  "FinancialData.price graham_zero_example = 10" "FinancialData.sharesOutstanding graham_zero_example = 100"
  "FinancialData.ebit graham_zero_example = 200" "netIncome graham_zero_example = 100"
  "equity graham_zero_example = 0" "investedCapital graham_zero_example = 1000"
  "freeCashFlow graham_zero_example = 100" "currentEPS graham_zero_example = 1"
  "debt graham_zero_example = 0" "cashAndEquivalents graham_zero_example = 0"
  "interestExpenses graham_zero_example = 0" "sectorPE graham_zero_example = 8"
  "sectorEVEBITDA graham_zero_example = 6"
  by (simp_all add: graham_zero_example_def profit_example_def blank_data_def)

lemma calculateWacc_loss_example: "calculateWacc loss_example BASE_assumptions = (0.2, 0.2)"
  by (simp add: calculateWacc_def Let_def loss_example_fields BASE_fields)

lemma calculateWacc_profit_example: "calculateWacc profit_example BASE_assumptions = (0.2, 0.2)"
  by (simp add: calculateWacc_def Let_def profit_example_fields BASE_fields)

lemma calculateWacc_graham_zero_example:
  "calculateWacc graham_zero_example BASE_assumptions = (0.2, 0.2)"
  by (simp add: calculateWacc_def Let_def graham_zero_example_fields BASE_fields)

lemma sqrt_225: "sqrt 225 = 15"
proof -
  have "sqrt (15 ^ 2) = (15::real)" by (rule real_sqrt_unique) simp_all
  then show ?thesis by simp
qed

lemma fair_values_loss_example:
  "map ValuationResult.fairValue (results (performValuation loss_example BASE_assumptions None))
     = [0, -7, 0, -7, 0]"
  unfolding results_fairValues calculateWacc_loss_example fst_conv snd_conv BASE_fields
    calcDCF_closed calcGordon_def calcEVA_def calcMultiples_def calcGraham_def Let_def
    loss_example_fields
  by (simp add: power_divide)

lemma fair_values_profit_example:
  "map ValuationResult.fairValue (results (performValuation profit_example BASE_assumptions None))
     = [7.35, 7, 7.2765, 10, 15]"
  unfolding results_fairValues calculateWacc_profit_example fst_conv snd_conv BASE_fields
    calcDCF_closed calcGordon_def calcEVA_def calcMultiples_def calcGraham_def Let_def
    profit_example_fields
  by (simp add: power_divide sqrt_225)

lemma fair_values_graham_zero_example:
  "map ValuationResult.fairValue (results (performValuation graham_zero_example BASE_assumptions None))
     = [7.35, 7, 7.2765, 10, 0]"
  unfolding results_fairValues calculateWacc_graham_zero_example fst_conv snd_conv BASE_fields
    calcDCF_closed calcGordon_def calcEVA_def calcMultiples_def calcGraham_def Let_def
    graham_zero_example_fields
  by (simp add: power_divide)

text \<open>C3 on the profitable example: centre cell 7.35, and the cell of row 0, column 4 is at
  WACC 0.19 and growth 0.06.\<close>

theorem sensitivity_matrix_grid_witness:
  "SensitivityCell.fairValue
     (sensitivityMatrix (performValuation profit_example BASE_assumptions None) ! 2 ! 2) = 7.35 \<and>
   SensitivityCell.wacc
     (sensitivityMatrix (performValuation profit_example BASE_assumptions None) ! 0 ! 4) = 0.19 \<and>
   growth (sensitivityMatrix (performValuation profit_example BASE_assumptions None) ! 0 ! 4) = 0.06"
proof -
  let ?v = "performValuation profit_example BASE_assumptions None"
  let ?m = "sensitivityMatrix ?v"
  note g = sensitivity_matrix_grid [of profit_example BASE_assumptions None, unfolded Let_def]
  from g have cells: "\<forall>i<5. \<forall>j<5.
         SensitivityCell.wacc (?m ! i ! j) = calculatedWacc ?v + (real i - 2) * 0.005 \<and>
         growth (?m ! i ! j) = perpetualGrowth BASE_assumptions + (real j - 2) * 0.005 \<and>
         SensitivityCell.fairValue (?m ! i ! j) =
           calcDCF profit_example (calculatedWacc ?v + (real i - 2) * 0.005)
             (perpetualGrowth BASE_assumptions + (real j - 2) * 0.005)
             (projectedRevenueGrowth BASE_assumptions)"
    by blast
  from g have w: "calculatedWacc ?v = fst (calculateWacc profit_example BASE_assumptions)"
    by blast
  from g have c: "SensitivityCell.fairValue (?m ! 2 ! 2) = ValuationResult.fairValue (results ?v ! 0)"
    by blast
  have "map ValuationResult.fairValue (results ?v) ! 0 = ValuationResult.fairValue (results ?v ! 0)"
    by (rule nth_map) (simp add: performValuation_def Let_def split: prod.splits)
  then have "ValuationResult.fairValue (results ?v ! 0) = 7.35"
    unfolding fair_values_profit_example by simp
  with c have 1: "SensitivityCell.fairValue (?m ! 2 ! 2) = 7.35" by simp
  from cells have "SensitivityCell.wacc (?m ! 0 ! 4) = calculatedWacc ?v + (real 0 - 2) * 0.005 \<and>
         growth (?m ! 0 ! 4) = perpetualGrowth BASE_assumptions + (real 4 - 2) * 0.005"
    by simp
  then have 2: "SensitivityCell.wacc (?m ! 0 ! 4) = 0.19 \<and> growth (?m ! 0 ! 4) = 0.06"
    unfolding w calculateWacc_profit_example BASE_fields by simp
  from 1 2 show ?thesis by simp
qed

text \<open>C9 on the example where the Graham method alone returns 0: the range is computed over
  the four remaining values, 7 to 10.\<close>

theorem price_range_positive_values_witness:
  "filter (\<lambda>x. 0 < x) (map ValuationResult.fairValue
       (results (performValuation graham_zero_example BASE_assumptions None)))
     = [7.35, 7, 7.2765, 10] \<and>
   min_price (priceRange (performValuation graham_zero_example BASE_assumptions None)) = Num 7 \<and>
   max_price (priceRange (performValuation graham_zero_example BASE_assumptions None)) = Num 10"
  using price_range_positive_values [of graham_zero_example BASE_assumptions None]
  unfolding Let_def fair_values_graham_zero_example
  by simp

text \<open>C10 on the loss-making example, whose fair values are 0, -7, 0, -7, 0.\<close>

theorem price_range_no_positive_value_witness:
  "map ValuationResult.fairValue (results (performValuation loss_example BASE_assumptions None))
     = [0, -7, 0, -7, 0] \<and>
   min_price (priceRange (performValuation loss_example BASE_assumptions None)) = PosInfinity \<and>
   max_price (priceRange (performValuation loss_example BASE_assumptions None)) = NegInfinity"
proof -
  have "\<forall>x \<in> set (map ValuationResult.fairValue
           (results (performValuation loss_example BASE_assumptions None))). x \<le> 0"
    unfolding fair_values_loss_example by simp
  then have h: "\<forall>r \<in> set (results (performValuation loss_example BASE_assumptions None)).
      ValuationResult.fairValue r \<le> 0"
    by simp
  from price_range_no_positive_value [OF h] fair_values_loss_example show ?thesis by simp
qed

section \<open>Properties of the weighting\<close>

subsection \<open>Rounding to a double\<close>






lemma binary64_0 [simp]: "binary64 0 = 0"
  by (simp add: binary64_def)










subsection \<open>Accumulated rounding errors\<close>

















subsection \<open>The weighting of \<open>performValuation\<close>\<close>














subsection \<open>The MATURE profile on an example\<close>




























































































section \<open>Properties of the normalizer\<close>

lemma filterByTicker_exact_first:
  "filterByTicker data tk =
     (if \<exists>d \<in> set data. toUpperCase (symbol d) = toUpperCase tk
      then filter (\<lambda>d. toUpperCase (symbol d) = toUpperCase tk) data
      else filter (\<lambda>d. startsWith (toUpperCase (symbol d))
                          (replace_digits_F_suffix (toUpperCase tk))) data)"
  by (auto simp: filterByTicker_def Let_def filter_empty_conv)

lemma toUpperCase_vale: "toUpperCase ''vale3.sa'' = ''VALE3.SA''" "toUpperCase ''VALE3'' = ''VALE3''"
  by (simp_all add: toUpperCase_def)

lemma norm_VALE3: "replace_SA_suffix (trim (toUpperCase ''VALE3'')) = ''VALE3''"
  by (simp add: toUpperCase_def trim_def isWhiteSpace_def replace_SA_suffix_def endsWith_def)

lemma norm_vale3_sa: "replace_SA_suffix (trim (toUpperCase '' vale3.sa '')) = ''VALE3''"
  by (simp add: toUpperCase_def trim_def isWhiteSpace_def replace_SA_suffix_def endsWith_def)

lemma root_VALE3: "replace_digits_F_suffix ''VALE3'' = ''VALE''"
  by (simp add: replace_digits_F_suffix_def)

lemma filter_lower:
  "filterByTicker (income vale_lower_rows) ''VALE3'' = income vale_lower_rows"
  "filterByTicker (balance vale_lower_rows) ''VALE3'' = balance vale_lower_rows"
  "filterByTicker (cashFlow vale_lower_rows) ''VALE3'' = cashFlow vale_lower_rows"
  by (simp_all add: filterByTicker_def Let_def vale_lower_rows_def rows_keyed_def toUpperCase_vale
        root_VALE3 startsWith_def)

lemma find_lower: "findBrapi (brapi vale_lower_rows) ''VALE3'' = None"
  by (simp add: findBrapi_def vale_lower_rows_def rows_keyed_def root_VALE3 startsWith_def)

lemma getFinancialData_lower:
  "getFinancialData example_env ''VALE3'' (Some vale_lower_rows) = Inl (DadosIncompletos ''VALE3'' [Cotacao])"
  unfolding getFinancialData_def norm_VALE3 Let_def option.case filter_lower find_lower
  by (simp add: vale_lower_rows_def rows_keyed_def)

lemma getFinancialData_Some:
  "getFinancialData env tk (Some supa) =
     (let t = replace_SA_suffix (trim (toUpperCase tk));
          missing = (if findBrapi (brapi supa) t = None then [Cotacao] else [])
                    @ (if filterByTicker (income supa) t = [] then [DRE] else [])
                    @ (if filterByTicker (balance supa) t = [] then [Balanco] else [])
                    @ (if filterByTicker (cashFlow supa) t = [] then [FluxoDeCaixa] else [])
      in case findBrapi (brapi supa) t of
           None \<Rightarrow> Inl (DadosIncompletos t missing)
         | Some b \<Rightarrow>
             if filterByTicker (income supa) t = [] \<or> filterByTicker (balance supa) t = []
                \<or> filterByTicker (cashFlow supa) t = []
             then Inl (DadosIncompletos t missing)
             else Inr (buildSnapshot env t b (filterByTicker (income supa) t)
                         (filterByTicker (balance supa) t) (filterByTicker (cashFlow supa) t)
                         (dividends supa)))"
  by (simp add: getFinancialData_def Let_def)

lemma upper_char_idem:
  "(case map_of (zip ''abcdefghijklmnopqrstuvwxyz'' ''ABCDEFGHIJKLMNOPQRSTUVWXYZ'')
          (case map_of (zip ''abcdefghijklmnopqrstuvwxyz'' ''ABCDEFGHIJKLMNOPQRSTUVWXYZ'') c of
             Some u \<Rightarrow> u | None \<Rightarrow> c) of
      Some u \<Rightarrow> u | None \<Rightarrow> (case map_of (zip ''abcdefghijklmnopqrstuvwxyz'' ''ABCDEFGHIJKLMNOPQRSTUVWXYZ'') c of
             Some u \<Rightarrow> u | None \<Rightarrow> c))
   = (case map_of (zip ''abcdefghijklmnopqrstuvwxyz'' ''ABCDEFGHIJKLMNOPQRSTUVWXYZ'') c of
             Some u \<Rightarrow> u | None \<Rightarrow> c)"
  by (simp split: if_splits)

lemma toUpperCase_idem: "toUpperCase (toUpperCase s) = toUpperCase s"
  by (simp add: toUpperCase_def upper_char_idem)

lemma toUpperCase_fixed_iff:
  "toUpperCase s = s \<longleftrightarrow>
     (\<forall>c \<in> set s. (case map_of (zip ''abcdefghijklmnopqrstuvwxyz'' ''ABCDEFGHIJKLMNOPQRSTUVWXYZ'') c of
                       Some u \<Rightarrow> u | None \<Rightarrow> c) = c)"
  unfolding toUpperCase_def by (rule map_eq_conv [where g = "\<lambda>c. c" and xs = s, simplified])

lemma toUpperCase_fixed_subset:
  "toUpperCase s = s \<Longrightarrow> set r \<subseteq> set s \<Longrightarrow> toUpperCase r = r"
  unfolding toUpperCase_fixed_iff by blast

lemma set_trim: "set (trim s) \<subseteq> set s"
proof -
  have "set (trim s) \<subseteq> set (dropWhile isWhiteSpace s)"
    unfolding trim_def using set_dropWhileD [of _ isWhiteSpace "rev (dropWhile isWhiteSpace s)"]
    by auto
  also have "\<dots> \<subseteq> set s" using set_dropWhileD [of _ isWhiteSpace s] by auto
  finally show ?thesis .
qed

lemma set_replace_SA_suffix: "set (replace_SA_suffix s) \<subseteq> set s"
  by (auto simp: replace_SA_suffix_def dest: in_set_takeD)

lemma resolved_ticker_upper:
  "toUpperCase (replace_SA_suffix (trim (toUpperCase tk))) = replace_SA_suffix (trim (toUpperCase tk))"
proof (rule toUpperCase_fixed_subset [OF toUpperCase_idem])
  show "set (replace_SA_suffix (trim (toUpperCase tk))) \<subseteq> set (toUpperCase tk)"
    using set_replace_SA_suffix [of "trim (toUpperCase tk)"] set_trim [of "toUpperCase tk"]
    by blast
qed

lemma filterByTicker_spec: "filterByTicker rows t = spec_rows_for_ticker rows t"
  unfolding spec_rows_for_ticker_def by (rule filterByTicker_exact_first)

lemma find_Some_holds: "find P xs = Some x \<Longrightarrow> P x \<and> x \<in> set xs"
  by (induction xs) (auto split: if_splits)

lemma findBrapi_None_iff_spec:
  assumes u: "\<forall>b \<in> set rows. toUpperCase (symbol b) = symbol b" and t: "toUpperCase t = t"
  shows "findBrapi rows t = None \<longleftrightarrow> spec_rows_for_ticker rows t = []"
proof -
  have "findBrapi rows t = None \<longleftrightarrow>
      (\<forall>b \<in> set rows. symbol b \<noteq> t) \<and>
      (\<forall>b \<in> set rows. \<not> startsWith (symbol b) (replace_digits_F_suffix t))"
    by (auto simp: findBrapi_def find_None_iff split: option.splits dest: find_Some_holds)
  also have "\<dots> \<longleftrightarrow> spec_rows_for_ticker rows t = []"
    using u by (auto simp: spec_rows_for_ticker_def t filter_empty_conv)
  finally show ?thesis .
qed

text \<open>C8, as the code behaves. When the fetch returns no row set, \<open>getFinancialData\<close> fails
  with \<open>Sem dados\<close>, which names no category. On fetched rows whose quote symbols are in
  upper case, it fails if and only if one of the four categories has no row for the
  resolved ticker under the matching of the specification, and the failure names exactly
  those categories, in the order quote, income statement, balance sheet, cash flow.
  Whether it fails never depends on the dividend rows.\<close>

theorem missing_data_categories:
  "let t = replace_SA_suffix (trim (toUpperCase tk));
       q = (spec_rows_for_ticker (brapi supa) t = []);
       i = (spec_rows_for_ticker (income supa) t = []);
       b = (spec_rows_for_ticker (balance supa) t = []);
       c = (spec_rows_for_ticker (cashFlow supa) t = [])
   in getFinancialData env tk None = Inl (SemDados t) \<and>
      ((\<forall>r \<in> set (brapi supa). toUpperCase (symbol r) = symbol r) \<longrightarrow>
         (isl (getFinancialData env tk (Some supa)) \<longleftrightarrow> q \<or> i \<or> b \<or> c) \<and>
         (q \<or> i \<or> b \<or> c \<longrightarrow>
            getFinancialData env tk (Some supa) =
              Inl (DadosIncompletos t
                     (filter (\<lambda>k. (k = Cotacao \<and> q) \<or> (k = DRE \<and> i) \<or> (k = Balanco \<and> b)
                                   \<or> (k = FluxoDeCaixa \<and> c))
                        [Cotacao, DRE, Balanco, FluxoDeCaixa])))) \<and>
      isl (getFinancialData env tk (Some (supa\<lparr>dividends := ds\<rparr>)))
        = isl (getFinancialData env tk (Some supa))"
proof -
  define t where "t = replace_SA_suffix (trim (toUpperCase tk))"
  have n: "getFinancialData env tk None = Inl (SemDados t)"
    by (simp add: getFinancialData_def t_def)
  have s: "(isl (getFinancialData env tk (Some supa)) \<longleftrightarrow>
          spec_rows_for_ticker (brapi supa) t = [] \<or> spec_rows_for_ticker (income supa) t = []
          \<or> spec_rows_for_ticker (balance supa) t = [] \<or> spec_rows_for_ticker (cashFlow supa) t = []) \<and>
       (spec_rows_for_ticker (brapi supa) t = [] \<or> spec_rows_for_ticker (income supa) t = []
          \<or> spec_rows_for_ticker (balance supa) t = [] \<or> spec_rows_for_ticker (cashFlow supa) t = [] \<longrightarrow>
            getFinancialData env tk (Some supa) =
              Inl (DadosIncompletos t
                     (filter (\<lambda>k. (k = Cotacao \<and> spec_rows_for_ticker (brapi supa) t = [])
                                   \<or> (k = DRE \<and> spec_rows_for_ticker (income supa) t = [])
                                   \<or> (k = Balanco \<and> spec_rows_for_ticker (balance supa) t = [])
                                   \<or> (k = FluxoDeCaixa \<and> spec_rows_for_ticker (cashFlow supa) t = []))
                        [Cotacao, DRE, Balanco, FluxoDeCaixa])))"
    if u: "\<forall>r \<in> set (brapi supa). toUpperCase (symbol r) = symbol r"
  proof -
    have tu: "toUpperCase t = t" unfolding t_def by (rule resolved_ticker_upper)
    note q = findBrapi_None_iff_spec [OF u tu]
    show ?thesis
      unfolding getFinancialData_Some Let_def t_def [symmetric] filterByTicker_spec q [symmetric]
      by (auto split: option.splits)
  qed
  have d: "isl (getFinancialData env tk (Some (supa\<lparr>dividends := ds\<rparr>)))
        = isl (getFinancialData env tk (Some supa))"
    unfolding getFinancialData_Some Let_def by (auto split: option.splits)
  from n s d show ?thesis unfolding Let_def t_def [symmetric] by blast
qed

lemma sort_env_today [simp]:
  "sort_end_date_desc (env\<lparr>today := x\<rparr>) rows = sort_end_date_desc env rows"
  by (simp add: sort_end_date_desc_def)

lemma getLatest_env_today [simp]: "getLatest (env\<lparr>today := x\<rparr>) rows = getLatest env rows"
  by (simp add: getLatest_def)

lemma yearlyRows_env_today [simp]: "yearlyRows (env\<lparr>today := x\<rparr>) rows = yearlyRows env rows"
  by (simp add: yearlyRows_def)

lemma baseIncomeRow_env_today [simp]:
  "baseIncomeRow (env\<lparr>today := x\<rparr>) rows = baseIncomeRow env rows"
  by (simp add: baseIncomeRow_def split: list.splits)

lemma baseRowAt_env_today [simp]: "baseRowAt (env\<lparr>today := x\<rparr>) d rows = baseRowAt env d rows"
  by (simp add: baseRowAt_def split: option.splits)

lemma buildSnapshot_today:
  "buildSnapshot (env\<lparr>today := x\<rparr>) t q i b c d =
     (buildSnapshot env t q i b c d)
       \<lparr>fundamentals := (fundamentals (buildSnapshot env t q i b c d))\<lparr>date := x\<rparr>\<rparr>"
  by (simp add: buildSnapshot_def Let_def case_prod_beta split del: if_split cong: option.case_cong if_cong)

lemma buildSnapshot_date: "date (fundamentals (buildSnapshot env t q i b c d)) = today env"
  by (simp add: buildSnapshot_def Let_def case_prod_beta split del: if_split cong: option.case_cong if_cong)

lemma buildSnapshot_shares:
  "FinancialData.sharesOutstanding (buildSnapshot env t q i b c d)
     = snd (snd (resolveShares q (fst (baseIncomeRow env i))))"
  "FundamentalData.sharesOutstanding (fundamentals (buildSnapshot env t q i b c d))
     = snd (snd (resolveShares q (fst (baseIncomeRow env i))))"
  by (simp_all add: buildSnapshot_def Let_def case_prod_beta split del: if_split)

text \<open>C6, as the code behaves: on the same platform two runs over the same ticker and the
  same fetched rows return the same failure, or two snapshots that are equal in every
  field except \<open>fundamentals.date\<close>, which is the current date of each run
  (\<open>new Date().toLocaleDateString('pt-BR')\<close>).\<close>

theorem snapshot_differs_only_in_date:
  "getFinancialData (env\<lparr>today := now\<rparr>) tk fetched =
     map_sum id (\<lambda>s. s\<lparr>fundamentals := (fundamentals s)\<lparr>date := now\<rparr>\<rparr>)
       (getFinancialData (env\<lparr>today := earlier\<rparr>) tk fetched) \<and>
   (\<forall>s. getFinancialData env tk fetched = Inr s \<longrightarrow> date (fundamentals s) = today env)"
proof (cases fetched)
  case None
  then show ?thesis by (simp add: getFinancialData_def)
next
  case (Some supa)
  have "buildSnapshot (env\<lparr>today := now\<rparr>) t q i b c d =
     (buildSnapshot (env\<lparr>today := earlier\<rparr>) t q i b c d)
       \<lparr>fundamentals := (fundamentals (buildSnapshot (env\<lparr>today := earlier\<rparr>) t q i b c d))\<lparr>date := now\<rparr>\<rparr>"
    for t q i b c d
    using buildSnapshot_today [where env = "env\<lparr>today := earlier\<rparr>" and x = now] by simp
  then show ?thesis
    unfolding Some getFinancialData_Some Let_def
    by (auto simp: buildSnapshot_date split: option.splits)
qed

lemma resolveShares_cases:
  "snd (snd (resolveShares q bi)) =
     (if 0 < num_or (brapi_row.marketCap q) 0 \<and> 0 < num_or (regularMarketPrice q) 10
      then num_or (brapi_row.marketCap q) 0 / num_or (regularMarketPrice q) 10
      else if num_or (brapi_row.sharesOutstanding q) 0 \<noteq> 0
      then num_or (brapi_row.sharesOutstanding q) 0
      else if truthy (Option.bind bi net_income) \<and> truthy (earningsPerShare q)
      then num_or (Option.bind bi net_income) 0 / num_or (earningsPerShare q) 0
      else 1000000)"
proof -
  have nz: "num_or x 0 \<noteq> 0" if "truthy x" for x
    using that by (auto simp: truthy_def num_or_def split: option.splits)
  show ?thesis
    by (auto simp: resolveShares_def Let_def nz)
qed

text \<open>C7, as the code behaves: with \<open>q\<close> the quote row resolved for the ticker and the
  base income row of line 90, the shares outstanding of every snapshot are different from
  0, in the snapshot and in its fundamentals alike, so a division by them never divides by
  zero. They are market capitalisation / price when both are positive, the price being
  that of the quote, or 10 when the quote has none; otherwise the
  shares-outstanding field of the quote when it is present and not 0; otherwise net income
  of the base income row / earnings per share of the quote when both are present and not
  0; otherwise the default 1,000,000. They are negative exactly when the market
  capitalisation and price do not decide and either the shares-outstanding field is negative,
  or it is absent or 0 and net income / earnings per share is negative; in every other case
  they are strictly positive.\<close>

theorem shares_outstanding_sources:
  assumes "getFinancialData env tk (Some supa) = Inr d"
    and "findBrapi (brapi supa) (replace_SA_suffix (trim (toUpperCase tk))) = Some q"
  shows "let bi = fst (baseIncomeRow env
                    (filterByTicker (income supa) (replace_SA_suffix (trim (toUpperCase tk)))));
             mCap = num_or (brapi_row.marketCap q) 0;
             price' = num_or (regularMarketPrice q) 10;
             field = num_or (brapi_row.sharesOutstanding q) 0;
             ni = Option.bind bi net_income;
             eps = earningsPerShare q;
             shares = FinancialData.sharesOutstanding d
         in shares \<noteq> 0 \<and>
            FundamentalData.sharesOutstanding (fundamentals d) = shares \<and>
            (0 < mCap \<and> 0 < price' \<longrightarrow> shares = mCap / price' \<and> 0 < shares) \<and>
            (\<not> (0 < mCap \<and> 0 < price') \<and> field \<noteq> 0 \<longrightarrow> shares = field) \<and>
            (\<not> (0 < mCap \<and> 0 < price') \<and> field = 0 \<and> truthy ni \<and> truthy eps
               \<longrightarrow> shares = num_or ni 0 / num_or eps 0) \<and>
            (\<not> (0 < mCap \<and> 0 < price') \<and> field = 0 \<and> \<not> (truthy ni \<and> truthy eps)
               \<longrightarrow> shares = 1000000) \<and>
            (shares < 0 \<longleftrightarrow>
               \<not> (0 < mCap \<and> 0 < price') \<and>
               (field < 0 \<or> (field = 0 \<and> truthy ni \<and> truthy eps \<and> num_or ni 0 / num_or eps 0 < 0)))"
proof -
  define t where "t = replace_SA_suffix (trim (toUpperCase tk))"
  define bi where "bi = fst (baseIncomeRow env (filterByTicker (income supa) t))"
  from assms have d: "d = buildSnapshot env t q (filterByTicker (income supa) t)
      (filterByTicker (balance supa) t) (filterByTicker (cashFlow supa) t) (dividends supa)"
    unfolding getFinancialData_Some Let_def t_def
    by (auto split: option.splits if_splits)
  have sh: "FinancialData.sharesOutstanding d = snd (snd (resolveShares q bi))"
    "FundamentalData.sharesOutstanding (fundamentals d) = snd (snd (resolveShares q bi))"
    unfolding d bi_def by (rule buildSnapshot_shares)+
  have nz: "num_or x 0 \<noteq> 0" if "truthy x" for x
    using that by (auto simp: truthy_def num_or_def split: option.splits)
  show ?thesis
    unfolding Let_def t_def [symmetric] bi_def [symmetric] sh resolveShares_cases
    by (auto simp: nz zero_less_divide_iff divide_less_0_iff)
qed

lemma norm_LOSS3: "replace_SA_suffix (trim (toUpperCase ''LOSS3'')) = ''LOSS3''"
  by (simp add: toUpperCase_def trim_def isWhiteSpace_def replace_SA_suffix_def endsWith_def)

lemma toUpperCase_LOSS3: "toUpperCase ''LOSS3'' = ''LOSS3''"
  by (simp add: toUpperCase_def)

lemma filter_vale:
  "filterByTicker (income vale_rows) ''VALE3'' = [vale_income\<lparr>symbol := ''VALE3''\<rparr>]"
  "filterByTicker (balance vale_rows) ''VALE3'' = [vale_balance\<lparr>symbol := ''VALE3''\<rparr>]"
  "filterByTicker (cashFlow vale_rows) ''VALE3'' = [vale_cashflow\<lparr>symbol := ''VALE3''\<rparr>]"
  by (simp_all add: filterByTicker_def Let_def vale_rows_def rows_keyed_def toUpperCase_vale)

lemma find_vale: "findBrapi (brapi vale_rows) ''VALE3'' = Some (vale_quote\<lparr>symbol := ''VALE3''\<rparr>)"
  by (simp add: findBrapi_def vale_rows_def rows_keyed_def)

lemma getFinancialData_vale:
  "getFinancialData env ''VALE3'' (Some vale_rows) =
     Inr (buildSnapshot env ''VALE3'' (vale_quote\<lparr>symbol := ''VALE3''\<rparr>)
            [vale_income\<lparr>symbol := ''VALE3''\<rparr>] [vale_balance\<lparr>symbol := ''VALE3''\<rparr>]
            [vale_cashflow\<lparr>symbol := ''VALE3''\<rparr>] [])"
  unfolding getFinancialData_Some norm_VALE3 Let_def filter_vale find_vale
  by (simp add: vale_rows_def rows_keyed_def)

lemma filter_loss:
  "filterByTicker (income loss_rows) ''LOSS3''
     = [vale_income\<lparr>net_income := Some (-1000), symbol := ''LOSS3''\<rparr>]"
  "filterByTicker (balance loss_rows) ''LOSS3'' = [vale_balance\<lparr>symbol := ''LOSS3''\<rparr>]"
  "filterByTicker (cashFlow loss_rows) ''LOSS3'' = [vale_cashflow\<lparr>symbol := ''LOSS3''\<rparr>]"
  by (simp_all add: filterByTicker_def Let_def loss_rows_def rows_keyed_def toUpperCase_LOSS3)

lemma find_loss:
  "findBrapi (brapi loss_rows) ''LOSS3''
     = Some (blank_brapi\<lparr>regularMarketPrice := Some 5, earningsPerShare := Some 2, symbol := ''LOSS3''\<rparr>)"
  by (simp add: findBrapi_def loss_rows_def rows_keyed_def)

lemma getFinancialData_loss:
  "getFinancialData env ''LOSS3'' (Some loss_rows) =
     Inr (buildSnapshot env ''LOSS3''
            (blank_brapi\<lparr>regularMarketPrice := Some 5, earningsPerShare := Some 2, symbol := ''LOSS3''\<rparr>)
            [vale_income\<lparr>net_income := Some (-1000), symbol := ''LOSS3''\<rparr>]
            [vale_balance\<lparr>symbol := ''LOSS3''\<rparr>] [vale_cashflow\<lparr>symbol := ''LOSS3''\<rparr>] [])"
  unfolding getFinancialData_Some norm_LOSS3 Let_def filter_loss find_loss
  by (simp add: loss_rows_def rows_keyed_def)

lemma classifyPeriod_2023: "classifyPeriod (Some ''2023'') = ''yearly''"
  by (simp add: classifyPeriod_def toUpperCase_def startsWith_def)

lemma baseIncomeRow_single:
  "classifyPeriod (period r) = ''yearly'' \<Longrightarrow> baseIncomeRow env [r] = (Some r, [r])"
  by (simp add: baseIncomeRow_def yearlyRows_def sort_end_date_desc_def)

lemma shares_loss:
  "FinancialData.sharesOutstanding
     (buildSnapshot env ''LOSS3''
        (blank_brapi\<lparr>regularMarketPrice := Some 5, earningsPerShare := Some 2, symbol := ''LOSS3''\<rparr>)
        [vale_income\<lparr>net_income := Some (-1000), symbol := ''LOSS3''\<rparr>] b c d) = -500"
  unfolding buildSnapshot_shares
  by (subst baseIncomeRow_single)
     (simp_all add: vale_income_def classifyPeriod_2023 resolveShares_def Let_def blank_brapi_def
        num_or_def truthy_def)

text \<open>C7 as stated fails: with no market capitalisation and no shares-outstanding field in
  the quote, net income -1000 and earnings per share 2 give -500 shares, which the guard
  \<open>if (!shares)\<close> keeps.\<close>

theorem shares_outstanding_negative_counterexample:
  "map_sum id FinancialData.sharesOutstanding
     (getFinancialData example_env ''LOSS3'' (Some loss_rows)) = Inr (- 500)"
  unfolding getFinancialData_loss by (simp add: shares_loss)

lemma filter_default:
  "filterByTicker (income default_rows) ''VALE3''
     = [vale_income\<lparr>net_income := None, symbol := ''VALE3''\<rparr>]"
  "filterByTicker (balance default_rows) ''VALE3'' = [vale_balance\<lparr>symbol := ''VALE3''\<rparr>]"
  "filterByTicker (cashFlow default_rows) ''VALE3'' = [vale_cashflow\<lparr>symbol := ''VALE3''\<rparr>]"
  by (simp_all add: filterByTicker_def Let_def default_rows_def rows_keyed_def toUpperCase_vale)

lemma find_default:
  "findBrapi (brapi default_rows) ''VALE3''
     = Some (blank_brapi\<lparr>regularMarketPrice := Some 5, earningsPerShare := Some 2, symbol := ''VALE3''\<rparr>)"
  by (simp add: findBrapi_def default_rows_def rows_keyed_def)

lemma getFinancialData_default:
  "getFinancialData env ''VALE3'' (Some default_rows) =
     Inr (buildSnapshot env ''VALE3''
            (blank_brapi\<lparr>regularMarketPrice := Some 5, earningsPerShare := Some 2, symbol := ''VALE3''\<rparr>)
            [vale_income\<lparr>net_income := None, symbol := ''VALE3''\<rparr>]
            [vale_balance\<lparr>symbol := ''VALE3''\<rparr>] [vale_cashflow\<lparr>symbol := ''VALE3''\<rparr>] [])"
  unfolding getFinancialData_Some norm_VALE3 Let_def filter_default find_default
  by (simp add: default_rows_def rows_keyed_def)

text \<open>C7 on two inputs: the rows keyed \<open>VALE3\<close>, with market capitalisation 6000 at
  price 60, give 100 shares; rows with no market capitalisation, no shares-outstanding
  field and no net income give the default 1,000,000.\<close>

theorem shares_outstanding_sources_witness:
  "map_sum id FinancialData.sharesOutstanding
     (getFinancialData example_env ''VALE3'' (Some vale_rows)) = Inr 100 \<and>
   map_sum id FinancialData.sharesOutstanding
     (getFinancialData example_env ''VALE3'' (Some default_rows)) = Inr 1000000"
proof -
  have v: "findBrapi (brapi vale_rows) (replace_SA_suffix (trim (toUpperCase ''VALE3'')))
      = Some (vale_quote\<lparr>symbol := ''VALE3''\<rparr>)"
    unfolding norm_VALE3 by (rule find_vale)
  have 1: "FinancialData.sharesOutstanding
       (buildSnapshot example_env ''VALE3'' (vale_quote\<lparr>symbol := ''VALE3''\<rparr>)
          [vale_income\<lparr>symbol := ''VALE3''\<rparr>] [vale_balance\<lparr>symbol := ''VALE3''\<rparr>]
          [vale_cashflow\<lparr>symbol := ''VALE3''\<rparr>] []) = 100"
    using shares_outstanding_sources [OF getFinancialData_vale [of example_env] v]
    unfolding Let_def
    by (simp add: vale_quote_def blank_brapi_def num_or_def)
  have d: "findBrapi (brapi default_rows) (replace_SA_suffix (trim (toUpperCase ''VALE3'')))
      = Some (blank_brapi\<lparr>regularMarketPrice := Some 5, earningsPerShare := Some 2,
                symbol := ''VALE3''\<rparr>)"
    unfolding norm_VALE3 by (rule find_default)
  have b: "fst (baseIncomeRow example_env [vale_income\<lparr>net_income := None, symbol := ''VALE3''\<rparr>])
      = Some (vale_income\<lparr>net_income := None, symbol := ''VALE3''\<rparr>)"
    by (subst baseIncomeRow_single) (simp_all add: vale_income_def classifyPeriod_2023)
  have 2: "FinancialData.sharesOutstanding
       (buildSnapshot example_env ''VALE3''
          (blank_brapi\<lparr>regularMarketPrice := Some 5, earningsPerShare := Some 2, symbol := ''VALE3''\<rparr>)
          [vale_income\<lparr>net_income := None, symbol := ''VALE3''\<rparr>]
          [vale_balance\<lparr>symbol := ''VALE3''\<rparr>] [vale_cashflow\<lparr>symbol := ''VALE3''\<rparr>] []) = 1000000"
    using shares_outstanding_sources [OF getFinancialData_default [of example_env] d]
    unfolding Let_def norm_VALE3 filter_default b
    by (simp add: blank_brapi_def num_or_def truthy_def vale_income_def)
  from 1 2 show ?thesis
    unfolding getFinancialData_vale getFinancialData_default by simp
qed

text \<open>C6 as stated fails: the same rows normalized on 2 November and on 3 November 2026 give
  two different snapshots.\<close>

theorem snapshot_date_counterexample:
  "getFinancialData (example_env\<lparr>today := ''03/11/2026''\<rparr>) ''VALE3'' (Some vale_rows)
     \<noteq> getFinancialData example_env ''VALE3'' (Some vale_rows)"
proof
  assume "getFinancialData (example_env\<lparr>today := ''03/11/2026''\<rparr>) ''VALE3'' (Some vale_rows)
     = getFinancialData example_env ''VALE3'' (Some vale_rows)"
  then have "map_sum id (\<lambda>s. date (fundamentals s))
       (getFinancialData (example_env\<lparr>today := ''03/11/2026''\<rparr>) ''VALE3'' (Some vale_rows))
     = map_sum id (\<lambda>s. date (fundamentals s))
       (getFinancialData example_env ''VALE3'' (Some vale_rows))"
    by simp
  then show False
    unfolding getFinancialData_vale by (simp add: buildSnapshot_date example_env_def)
qed

text \<open>C6 on the rows keyed \<open>VALE3\<close>: a snapshot is returned, dated 02/11/2026; run a
  day later it is the same snapshot with the date replaced.\<close>

theorem snapshot_differs_only_in_date_witness:
  "getFinancialData (example_env\<lparr>today := ''03/11/2026''\<rparr>) ''VALE3'' (Some vale_rows) =
     map_sum id (\<lambda>s. s\<lparr>fundamentals := (fundamentals s)\<lparr>date := ''03/11/2026''\<rparr>\<rparr>)
       (getFinancialData (example_env\<lparr>today := ''02/11/2026''\<rparr>) ''VALE3'' (Some vale_rows)) \<and>
   \<not> isl (getFinancialData example_env ''VALE3'' (Some vale_rows)) \<and>
   map_sum id (\<lambda>s. date (fundamentals s)) (getFinancialData example_env ''VALE3'' (Some vale_rows))
     = Inr ''02/11/2026''"
proof -
  note t = snapshot_differs_only_in_date [where env = example_env and now = "''03/11/2026''"
      and tk = "''VALE3''" and fetched = "Some vale_rows" and earlier = "''02/11/2026''"]
  from t have 1: "getFinancialData (example_env\<lparr>today := ''03/11/2026''\<rparr>) ''VALE3'' (Some vale_rows) =
     map_sum id (\<lambda>s. s\<lparr>fundamentals := (fundamentals s)\<lparr>date := ''03/11/2026''\<rparr>\<rparr>)
       (getFinancialData (example_env\<lparr>today := ''02/11/2026''\<rparr>) ''VALE3'' (Some vale_rows))"
    by blast
  from t have 2: "\<forall>s. getFinancialData example_env ''VALE3'' (Some vale_rows) = Inr s \<longrightarrow>
      date (fundamentals s) = today example_env"
    by blast
  from 2 have 3: "map_sum id (\<lambda>s. date (fundamentals s))
      (getFinancialData example_env ''VALE3'' (Some vale_rows)) = Inr ''02/11/2026''"
    unfolding getFinancialData_vale by (simp add: example_env_def)
  from 1 3 show ?thesis unfolding getFinancialData_vale by simp
qed

lemma spec_rows_vale:
  "spec_rows_for_ticker (brapi vale_rows) ''VALE3'' = brapi vale_rows"
  "spec_rows_for_ticker (income vale_rows) ''VALE3'' = income vale_rows"
  "spec_rows_for_ticker (balance vale_rows) ''VALE3'' = balance vale_rows"
  "spec_rows_for_ticker (cashFlow vale_rows) ''VALE3'' = cashFlow vale_rows"
  by (simp_all add: spec_rows_for_ticker_def vale_rows_def rows_keyed_def toUpperCase_vale)

lemma spec_rows_vale_lower:
  "spec_rows_for_ticker (brapi vale_lower_rows) ''VALE3'' = brapi vale_lower_rows"
  "spec_rows_for_ticker (income vale_lower_rows) ''VALE3'' = income vale_lower_rows"
  "spec_rows_for_ticker (balance vale_lower_rows) ''VALE3'' = balance vale_lower_rows"
  "spec_rows_for_ticker (cashFlow vale_lower_rows) ''VALE3'' = cashFlow vale_lower_rows"
  by (simp_all add: spec_rows_for_ticker_def vale_lower_rows_def rows_keyed_def toUpperCase_vale
        root_VALE3 startsWith_def)

text \<open>C8 as stated fails in two ways. When the fetch returns no row set, the failure names
  no category. And with every row keyed \<open>vale3.sa\<close>, each of the four categories has one row
  for \<open>VALE3\<close> under the matching of the specification, yet \<open>getFinancialData\<close> fails, naming
  the quote.\<close>

theorem missing_data_counterexample:
  "getFinancialData example_env ''VALE3'' None = Inl (SemDados ''VALE3'') \<and>
   length (spec_rows_for_ticker (brapi vale_lower_rows) ''VALE3'') = 1 \<and>
   length (spec_rows_for_ticker (income vale_lower_rows) ''VALE3'') = 1 \<and>
   length (spec_rows_for_ticker (balance vale_lower_rows) ''VALE3'') = 1 \<and>
   length (spec_rows_for_ticker (cashFlow vale_lower_rows) ''VALE3'') = 1 \<and>
   getFinancialData example_env ''VALE3'' (Some vale_lower_rows)
     = Inl (DadosIncompletos ''VALE3'' [Cotacao])"
  unfolding spec_rows_vale_lower getFinancialData_lower
  by (simp add: getFinancialData_def norm_VALE3 vale_lower_rows_def rows_keyed_def)

text \<open>C8 on three inputs: no row set, where the failure is \<open>Sem dados\<close>; the rows keyed
  \<open>VALE3\<close>, where every category has a row and a snapshot is returned; and the same rows
  without the income statements, where the failure names the income statement alone.\<close>

theorem missing_data_categories_witness:
  "getFinancialData example_env ''VALE3'' None = Inl (SemDados ''VALE3'') \<and>
   \<not> isl (getFinancialData example_env ''VALE3'' (Some vale_rows)) \<and>
   getFinancialData example_env ''VALE3'' (Some no_income_rows)
     = Inl (DadosIncompletos ''VALE3'' [DRE])"
proof -
  have u: "\<forall>r \<in> set (brapi vale_rows). toUpperCase (symbol r) = symbol r"
    by (simp add: vale_rows_def rows_keyed_def toUpperCase_vale)
  have u': "\<forall>r \<in> set (brapi no_income_rows). toUpperCase (symbol r) = symbol r"
    by (simp add: no_income_rows_def vale_rows_def rows_keyed_def toUpperCase_vale)
  have e: "spec_rows_for_ticker (brapi no_income_rows) ''VALE3'' = brapi vale_rows"
    "spec_rows_for_ticker (income no_income_rows) ''VALE3'' = []"
    "spec_rows_for_ticker (balance no_income_rows) ''VALE3'' = balance vale_rows"
    "spec_rows_for_ticker (cashFlow no_income_rows) ''VALE3'' = cashFlow vale_rows"
    by (simp_all add: spec_rows_for_ticker_def no_income_rows_def vale_rows_def rows_keyed_def
          toUpperCase_vale)
  have ne: "brapi vale_rows \<noteq> []" "income vale_rows \<noteq> []" "balance vale_rows \<noteq> []"
    "cashFlow vale_rows \<noteq> []"
    by (simp_all add: vale_rows_def rows_keyed_def)
  from missing_data_categories [of "''VALE3''" vale_rows example_env "[]"] u
  have 1: "getFinancialData example_env ''VALE3'' None = Inl (SemDados ''VALE3'') \<and>
    \<not> isl (getFinancialData example_env ''VALE3'' (Some vale_rows))"
    unfolding Let_def norm_VALE3 spec_rows_vale by (simp add: ne)
  from missing_data_categories [of "''VALE3''" no_income_rows example_env "[]"] u'
  have 2: "getFinancialData example_env ''VALE3'' (Some no_income_rows)
     = Inl (DadosIncompletos ''VALE3'' [DRE])"
    unfolding Let_def norm_VALE3 e by (simp add: ne)
  from 1 2 show ?thesis by simp
qed

text \<open>C5 fails on the code for the quote row: with every row keyed \<open>vale3.sa\<close>, the lookup
  for \<open>VALE3\<close> resolves the income, balance-sheet and cash-flow rows through
  \<open>filterByTicker\<close>, which compares upper-cased symbols, but the quote lookup of line 69
  compares the symbols as they are, finds nothing, and \<open>getFinancialData\<close> fails naming
  the quote as missing.\<close>

theorem quote_lookup_case_sensitive:
  "filterByTicker (income vale_lower_rows) ''VALE3'' = income vale_lower_rows \<and>
   filterByTicker (balance vale_lower_rows) ''VALE3'' = balance vale_lower_rows \<and>
   filterByTicker (cashFlow vale_lower_rows) ''VALE3'' = cashFlow vale_lower_rows \<and>
   map symbol (brapi vale_lower_rows) = [''vale3.sa''] \<and>
   findBrapi (brapi vale_lower_rows) ''VALE3'' = None \<and>
   getFinancialData example_env ''VALE3'' (Some vale_lower_rows)
     = Inl (DadosIncompletos ''VALE3'' [Cotacao])"
  by (simp add: filter_lower find_lower getFinancialData_lower)
     (simp add: vale_lower_rows_def rows_keyed_def)

lemma getFinancialData_deficit:
  "map_sum id valuation_inputs (getFinancialData env ''LOSS3'' (Some deficit_rows))
     = Inr [10, 100, -100, -100, 1000, 1000, -50, -1, 0, 0, 0, 8, 6]"
  unfolding getFinancialData_Some norm_LOSS3 Let_def
  apply (simp add: deficit_rows_def filterByTicker_def findBrapi_def toUpperCase_LOSS3 Let_def
      valuation_inputs_def buildSnapshot_def baseIncomeRow_def baseRowAt_def yearlyRows_def
      sort_end_date_desc_def classifyPeriod_2023 vale_income_def vale_balance_def vale_cashflow_def
      blank_brapi_def resolveShares_def num_or_def truthy_def
      split del: if_split)
  done


lemma valuation_inputs_loss_example:
  "valuation_inputs loss_example = [10, 100, -100, -100, 1000, 1000, -50, -1, 0, 0, 0, 8, 6]"
  by (simp add: valuation_inputs_def loss_example_fields)

lemma fair_values_depend_on_valuation_inputs:
  assumes "valuation_inputs d = valuation_inputs d'"
  shows "map ValuationResult.fairValue (results (performValuation d a cw))
           = map ValuationResult.fairValue (results (performValuation d' a cw))"
proof -
  from assms have f:
    "FinancialData.price d = FinancialData.price d'"
    "FinancialData.sharesOutstanding d = FinancialData.sharesOutstanding d'"
    "FinancialData.ebit d = FinancialData.ebit d'" "netIncome d = netIncome d'"
    "equity d = equity d'" "investedCapital d = investedCapital d'"
    "freeCashFlow d = freeCashFlow d'" "currentEPS d = currentEPS d'" "debt d = debt d'"
    "cashAndEquivalents d = cashAndEquivalents d'" "interestExpenses d = interestExpenses d'"
    "sectorPE d = sectorPE d'" "sectorEVEBITDA d = sectorEVEBITDA d'"
    by (simp_all add: valuation_inputs_def)
  have w: "calculateWacc d a = calculateWacc d' a"
    unfolding calculateWacc_def f ..
  show ?thesis
    unfolding results_fairValues w calcDCF_closed calcGordon_def calcEVA_def calcMultiples_def
      calcGraham_def f ..
qed

lemma methods_performValuation:
  "map method (results (performValuation d a cw))
      = [ValuationMethodType.DCF, ValuationMethodType.GORDON, ValuationMethodType.EVA,
         ValuationMethodType.MULTIPLES, ValuationMethodType.GRAHAM]"
  by (simp add: performValuation_def Let_def split: prod.splits)

lemma method_fair_values:
  "map (\<lambda>r. (method r, ValuationResult.fairValue r)) (results (performValuation d a cw))
     = zip (map method (results (performValuation d a cw)))
         (map ValuationResult.fairValue (results (performValuation d a cw)))"
  by (simp add: zip_map_map zip_same_conv_map)

text \<open>C2 fails on the code: for the loss-making example under the BASE assumptions, the
  Gordon and the sector-multiples entries of the result list are both -7.
  \<open>calcDCF\<close> and \<open>calcEVA\<close> floor their result with \<open>Math.max(0, ...)\<close> and \<open>calcGraham\<close>
  returns 0 for non-positive earnings; \<open>calcGordon\<close> guards only \<open>ke \<le> g\<close> and
  \<open>calcMultiples\<close> has no floor. The example is a snapshot \<open>getFinancialData\<close> produces:
  from the rows of the loss-making company it returns a snapshot with the same valuation
  inputs, and \<open>performValuation\<close> on it has the same five fair values.\<close>

theorem performValuation_negative_fair_values:
  "map (\<lambda>r. (method r, ValuationResult.fairValue r))
       (results (performValuation loss_example BASE_assumptions None))
     = [(ValuationMethodType.DCF, 0), (ValuationMethodType.GORDON, -7),
        (ValuationMethodType.EVA, 0), (ValuationMethodType.MULTIPLES, -7),
        (ValuationMethodType.GRAHAM, 0)] \<and>
   map_sum id valuation_inputs (getFinancialData example_env ''LOSS3'' (Some deficit_rows))
     = Inr (valuation_inputs loss_example) \<and>
   map_sum id (\<lambda>d. map (\<lambda>r. (method r, ValuationResult.fairValue r))
                      (results (performValuation d BASE_assumptions None)))
       (getFinancialData example_env ''LOSS3'' (Some deficit_rows))
     = Inr [(ValuationMethodType.DCF, 0), (ValuationMethodType.GORDON, -7),
            (ValuationMethodType.EVA, 0), (ValuationMethodType.MULTIPLES, -7),
            (ValuationMethodType.GRAHAM, 0)]"
proof -
  have 1: "map (\<lambda>r. (method r, ValuationResult.fairValue r))
       (results (performValuation loss_example BASE_assumptions None))
     = [(ValuationMethodType.DCF, 0), (ValuationMethodType.GORDON, -7),
        (ValuationMethodType.EVA, 0), (ValuationMethodType.MULTIPLES, -7),
        (ValuationMethodType.GRAHAM, 0)]"
    unfolding method_fair_values methods_performValuation fair_values_loss_example by simp
  have 2: "map_sum id valuation_inputs (getFinancialData example_env ''LOSS3'' (Some deficit_rows))
     = Inr (valuation_inputs loss_example)"
    unfolding valuation_inputs_loss_example by (rule getFinancialData_deficit)
  then obtain d where d: "getFinancialData example_env ''LOSS3'' (Some deficit_rows) = Inr d"
    and v: "valuation_inputs d = valuation_inputs loss_example"
    by (cases "getFinancialData example_env ''LOSS3'' (Some deficit_rows)") auto
  have "map (\<lambda>r. (method r, ValuationResult.fairValue r))
       (results (performValuation d BASE_assumptions None))
     = map (\<lambda>r. (method r, ValuationResult.fairValue r))
       (results (performValuation loss_example BASE_assumptions None))"
    unfolding method_fair_values methods_performValuation
      fair_values_depend_on_valuation_inputs [OF v] ..
  with 1 d have 3: "map_sum id (\<lambda>d. map (\<lambda>r. (method r, ValuationResult.fairValue r))
                      (results (performValuation d BASE_assumptions None)))
       (getFinancialData example_env ''LOSS3'' (Some deficit_rows))
     = Inr [(ValuationMethodType.DCF, 0), (ValuationMethodType.GORDON, -7),
            (ValuationMethodType.EVA, 0), (ValuationMethodType.MULTIPLES, -7),
            (ValuationMethodType.GRAHAM, 0)]"
    by simp
  from 1 2 3 show ?thesis by blast
qed

end
